theory Spec2Isabelle
  imports Complex_Main
begin

section \<open>Python values, errors and arrays\<close>

text \<open>
  The module \<^verbatim>\<open>pyts/plot/main.py\<close> is glue between TurbSim data objects and a plotting
  library. A float is an IEEE 754 double: a finite one is its real value, and a
  division rounds its exact quotient to the nearest double. Every exception the code can
  raise is a value of \<open>error\<close>, and a function that may raise returns \<open>error + 'a\<close>.
\<close>

datatype pyclass = Cls_tsdata | Cls_tsrun | Cls_object | Cls_other string

datatype axform_class =
    Base_axForm | Prof_axForm | Velprof_axForm | Tkeprof_axForm
  | Stressprof_axForm | Spec_axForm | Cohere_axForm

text \<open>A velocity component as the caller names it: 0, 1, 2 or a string.\<close>

datatype component = CInt int | CStr string

datatype error =
    KeyError component
  | IndexError
  | TypeError
  | AttributeError string
  | ZeroDivisionError
  | OverflowError
  | LibraryError
  | Unrecognized pyclass axform_class
  | NoAxForms

text \<open>
  \<open>Unrecognized c k\<close> is \<^verbatim>\<open>Exception('Object type %s not recognized for %s axes-type'
  % (obj.__class__, self.__class__))\<close>; \<open>NoAxForms\<close> is \<^verbatim>\<open>Exception('At least one
  axes-type instance must be provided.')\<close>; \<open>LibraryError\<close> is any exception raised
  inside the plotting library's spectral routines.
\<close>

definition ebind :: "error + 'a \<Rightarrow> ('a \<Rightarrow> error + 'b) \<Rightarrow> error + 'b" where
  "ebind m k = (case m of Inl e \<Rightarrow> Inl e | Inr x \<Rightarrow> k x)"

text \<open>
  The result of a float operation on finite operands: a finite double or an infinity.
\<close>

datatype pyfloat = Finite real | PosInf | NegInf

text \<open>
  Rounding a real to the nearest double, ties to even: the exponent of \<open>x\<close> is that of
  its leading bit, not below that of the subnormals; neighbouring doubles of that
  exponent are \<open>double_ulp x\<close> apart (53 bits of precision); a result of magnitude
  \<open>2 ^ 1024\<close> or more is an infinity.
\<close>

definition round_half_even :: "real \<Rightarrow> int" where
  "round_half_even y =
     (let f = \<lfloor>y\<rfloor>; d = y - of_int f
      in if d < 1 / 2 then f else if 1 / 2 < d then f + 1 else if even f then f else f + 1)"

definition double_exponent :: "real \<Rightarrow> int" where
  "double_exponent x = max \<lfloor>log 2 \<bar>x\<bar>\<rfloor> (- 1022)"

definition double_ulp :: "real \<Rightarrow> real" where
  "double_ulp x = 2 powr of_int (double_exponent x - 52)"

definition round_double :: "real \<Rightarrow> pyfloat" where
  "round_double x =
     (if x = 0 then Finite 0
      else
        (let r = of_int (round_half_even (\<bar>x\<bar> / double_ulp x)) * double_ulp x
         in if 2 ^ 1024 \<le> r then (if 0 < x then PosInf else NegInf)
            else Finite (sgn x * r)))"

text \<open>
  \<^verbatim>\<open>int(x)\<close> on a float truncates towards zero, and raises on an infinity.
\<close>

definition py_int :: "pyfloat \<Rightarrow> error + int" where
  "py_int x =
     (case x of
        Finite r \<Rightarrow> Inr (if 0 \<le> r then \<lfloor>r\<rfloor> else \<lceil>r\<rceil>)
      | PosInf \<Rightarrow> Inl OverflowError
      | NegInf \<Rightarrow> Inl OverflowError)"

text \<open>
  \<^verbatim>\<open>a / b\<close> on finite floats: it raises on a zero divisor, and gives the double
  nearest the exact quotient otherwise, an infinity when that overflows.
\<close>

definition py_div :: "real \<Rightarrow> real \<Rightarrow> error + pyfloat" where
  "py_div a b = (if b = 0 then Inl ZeroDivisionError else Inr (round_double (a / b)))"

text \<open>An index into an axis of length \<open>n\<close>; negative indices count from the end.\<close>

definition norm_index :: "nat \<Rightarrow> int \<Rightarrow> error + nat" where
  "norm_index n i =
     (let j = (if i < 0 then int n + i else i)
      in if 0 \<le> j \<and> j < int n then Inr (nat j) else Inl IndexError)"

text \<open>
  A three-dimensional array (component, height, lateral position) and a four-dimensional
  one (component, height, lateral position, time or frequency), each with its shape.
\<close>

record arr3 =
  shape3 :: "nat \<times> nat \<times> nat"
  dat3 :: "nat \<Rightarrow> nat \<Rightarrow> nat \<Rightarrow> real"

record arr4 =
  shape4 :: "nat \<times> nat \<times> nat \<times> nat"
  dat4 :: "nat \<Rightarrow> nat \<Rightarrow> nat \<Rightarrow> nat \<Rightarrow> real"

text \<open>\<^verbatim>\<open>a[c,:,i]\<close>: the vertical profile of one component at lateral index \<open>i\<close>.\<close>

definition column3 :: "arr3 \<Rightarrow> int \<Rightarrow> int \<Rightarrow> error + real list" where
  "column3 a c i =
     (case shape3 a of (n0, n1, n2) \<Rightarrow>
        ebind (norm_index n0 c) (\<lambda>c'.
        ebind (norm_index n2 i) (\<lambda>i'.
        Inr (map (\<lambda>j. dat3 a c' j i') [0..<n1]))))"

text \<open>\<^verbatim>\<open>a[c][igrid]\<close> with \<open>igrid\<close> a pair (iz, iy): the series at one grid point.\<close>

definition series4 :: "arr4 \<Rightarrow> int \<Rightarrow> int \<times> int \<Rightarrow> error + real list" where
  "series4 a c g =
     (case shape4 a of (n0, n1, n2, n3) \<Rightarrow>
        ebind (norm_index n0 c) (\<lambda>c'.
        ebind (norm_index n1 (fst g)) (\<lambda>iz.
        ebind (norm_index n2 (snd g)) (\<lambda>iy.
        Inr (map (\<lambda>t. dat4 a c' iz iy t) [0..<n3])))))"

section \<open>The data objects\<close>

text \<open>
  The classes \<^verbatim>\<open>tsdata\<close> and \<^verbatim>\<open>tsrun\<close> are imported from \<^verbatim>\<open>..main\<close>; the records hold
  the attributes this module reads. \<open>tm\<close> is \<open>None\<close> when \<^verbatim>\<open>hasattr(tsdata,'tm')\<close>
  is false. The methods \<^verbatim>\<open>grid.sub2ind\<close> and \<^verbatim>\<open>cohere.calcCoh\<close> of a run are fields.
\<close>

record turbmodel =
  tm_f :: "real list"
  Suu :: arr4

record tsdata =
  dt :: real
  ihub :: "int \<times> int"
  z :: "real list"
  uturb :: arr4
  uprof :: arr3
  tke :: arr3
  stress :: arr3
  tm :: "turbmodel option"

record tsgrid =
  grid_z :: "real list"
  grid_ihub :: "int \<times> int"
  grid_f :: "real list"
  sub2ind :: "int \<times> int \<Rightarrow> int"

record tsrun =
  grid :: tsgrid
  prof :: arr3
  spec :: arr4
  spec_tke :: arr3
  stress_array :: arr3
  calcCoh :: "real list \<Rightarrow> int \<Rightarrow> int \<Rightarrow> int \<Rightarrow> real list"

text \<open>
  An object handed to a format: its class, the rest of \<^verbatim>\<open>__class__.__mro__\<close>, and the
  attributes a \<^verbatim>\<open>tsdata\<close> and a \<^verbatim>\<open>tsrun\<close> method would read from it.
\<close>

record pyobj =
  obj_class :: pyclass
  obj_bases :: "pyclass list"
  as_tsdata :: tsdata
  as_tsrun :: tsrun

definition mro :: "pyobj \<Rightarrow> pyclass list" where
  "mro obj = obj_class obj # obj_bases obj"

section \<open>The spectral helpers\<close>

text \<open>
  \<^verbatim>\<open>mpl.mlab.psd\<close> and \<^verbatim>\<open>mpl.mlab.cohere\<close> belong to the plotting library and are
  parameters: given the signal(s), NFFT, the sample rate and noverlap they return the
  pair (values, frequencies), or \<open>None\<close> when they raise. The detrend function and
  \<^verbatim>\<open>scale_by_freq=False\<close> are the same in every call.
\<close>

record mlab =
  mlab_psd :: "real list \<Rightarrow> int \<Rightarrow> pyfloat \<Rightarrow> int \<Rightarrow> (real list \<times> real list) option"
  mlab_cohere ::
    "real list \<Rightarrow> real list \<Rightarrow> int \<Rightarrow> pyfloat \<Rightarrow> int
      \<Rightarrow> (real list \<times> real list) option"

definition lib_result :: "'a option \<Rightarrow> error + 'a" where
  "lib_result r = (case r of None \<Rightarrow> Inl LibraryError | Some v \<Rightarrow> Inr v)"

definition psd ::
    "mlab \<Rightarrow> real list \<Rightarrow> pyfloat \<Rightarrow> int \<Rightarrow> error + (real list \<times> real list)" where
  "psd L u sr nfft =
     ebind (lib_result (mlab_psd L u nfft sr (nfft div 2))) (\<lambda>(p, f).
     Inr (drop 1 f, drop 1 p))"

definition coh ::
    "mlab \<Rightarrow> real list \<Rightarrow> real list \<Rightarrow> pyfloat \<Rightarrow> int
      \<Rightarrow> error + (real list \<times> real list)" where
  "coh L u1 u2 sr nfft =
     ebind (lib_result (mlab_cohere L u1 u2 nfft sr (nfft div 2))) (\<lambda>(p, f).
     Inr (drop 1 f, drop 1 p))"

section \<open>The plotting formats\<close>

text \<open>
  A format object. Class attributes and instance attributes are fields; an attribute
  that \<^verbatim>\<open>hasattr\<close> may find absent is an option. \<open>xlabel\<close> is the class attribute
  \<^verbatim>\<open>_xlabel\<close> that overrides the property of the base class.
\<close>

record axform =
  fclass :: axform_class
  hide_ylabels :: bool
  lin_x_scale :: int
  xscale :: string
  yscale :: string
  yax :: "string option"
  xax :: "string option"
  hrel :: "real option"
  ylabel :: "string option"
  xlabel :: "string option"
  title :: "string option"
  grid_x :: "real list option"
  labels :: "(string \<times> string) list option"
  xlim_dat :: "real option list option"
  window_time :: "real option"
  igrid :: "(int \<times> int) option"
  igrid0 :: "(int \<times> int) option"
  igrid1 :: "(int \<times> int) option"

definition bslash :: char where
  "bslash = CHR 0x5C"

definition base_axForm :: axform where
  "base_axForm =
     \<lparr>fclass = Base_axForm, hide_ylabels = False, lin_x_scale = 0,
      xscale = ''linear'', yscale = ''linear'', yax = None, xax = None, hrel = None,
      ylabel = None, xlabel = None, title = None, grid_x = None, labels = None,
      xlim_dat = None, window_time = None, igrid = None, igrid0 = None, igrid1 = None\<rparr>"

definition prof_axForm :: axform where
  "prof_axForm =
     base_axForm\<lparr>fclass := Prof_axForm, yax := Some ''z'',
       ylabel := Some (''$z'' @ bslash # '','' @ bslash # ''mathrm{[m]}$''),
       hrel := Some 0.6\<rparr>"

definition velprof_axForm :: "real option list \<Rightarrow> axform" where
  "velprof_axForm xlim =
     prof_axForm\<lparr>fclass := Velprof_axForm, xax := Some ''vel'',
       title := Some ''Mean Velocity'',
       xlabel := Some (''$'' @ bslash # ''mathrm{[m/s]}$''),
       xlim_dat := Some xlim\<rparr>"

definition tkeprof_axForm :: "real option list \<Rightarrow> axform" where
  "tkeprof_axForm xlim =
     prof_axForm\<lparr>fclass := Tkeprof_axForm, xax := Some ''tke'', title := Some ''tke'',
       lin_x_scale := - 2, xlim_dat := Some xlim\<rparr>"

definition stressprof_axForm :: "real option list \<Rightarrow> axform" where
  "stressprof_axForm xlim =
     (tkeprof_axForm xlim)\<lparr>fclass := Stressprof_axForm, xax := Some ''tke'',
       title := Some ''stress'', lin_x_scale := - 2, grid_x := Some [0],
       labels := Some
         [(''u'', ''$'' @ bslash # ''overline{u'' @ [CHR 0x27] @ ''v'' @ [CHR 0x27] @ ''}$''),
          (''v'', ''$'' @ bslash # ''overline{u'' @ [CHR 0x27] @ ''w'' @ [CHR 0x27] @ ''}$''),
          (''w'', ''$'' @ bslash # ''overline{v'' @ [CHR 0x27] @ ''w'' @ [CHR 0x27] @ ''}$'')],
       xlim_dat := Some xlim\<rparr>"

text \<open>
  \<^verbatim>\<open>spec_axForm.__init__(self, window_time_sec=600, igrid=None)\<close> and
  \<^verbatim>\<open>cohere_axForm.__init__(self, window_time_sec=600, igrid0=None, igrid1=None)\<close>:
  both assign the literal 600 to \<^verbatim>\<open>self.window_time\<close>.
\<close>

definition spec_axForm :: "real \<Rightarrow> (int \<times> int) option \<Rightarrow> axform" where
  "spec_axForm window_time_sec ig =
     base_axForm\<lparr>fclass := Spec_axForm, hrel := Some 1, title := Some ''spectrum'',
       yax := Some ''spec'', xax := Some ''freq'',
       xlabel := Some (''$f'' @ bslash # '','' @ bslash # ''mathrm{[Hz]}$''),
       ylabel := Some (''$'' @ bslash # ''mathrm{[m^2s^{-2}/Hz]}$''),
       xscale := ''log'', yscale := ''log'',
       window_time := Some 600, igrid := ig\<rparr>"

definition cohere_axForm ::
    "real \<Rightarrow> (int \<times> int) option \<Rightarrow> (int \<times> int) option \<Rightarrow> axform" where
  "cohere_axForm window_time_sec ig0 ig1 =
     base_axForm\<lparr>fclass := Cohere_axForm, hrel := Some 1, title := Some ''coherence'',
       xax := Some ''freq'', yax := Some ''coh'', xlim_dat := Some [Some 0, Some 1],
       xlabel := Some (''$f'' @ bslash # '','' @ bslash # ''mathrm{[Hz]}$''),
       xscale := ''log'',
       window_time := Some 600, igrid0 := ig0, igrid1 := ig1\<rparr>"

subsection \<open>The lookup methods\<close>

text \<open>A value handed to \<^verbatim>\<open>ax.plot\<close>: an array, or the scalar \<^verbatim>\<open>np.NaN\<close>.\<close>

datatype plotval = Arr "real list" | NaN

type_synonym plotpair = "plotval \<times> plotval"

definition arrays :: "real list \<times> real list \<Rightarrow> error + plotpair" where
  "arrays xy = Inr (Arr (fst xy), Arr (snd xy))"

definition velprof_calc_tsdata :: "axform \<Rightarrow> tsdata \<Rightarrow> int \<Rightarrow> error + plotpair" where
  "velprof_calc_tsdata self td c =
     ebind (column3 (uprof td) c (snd (ihub td))) (\<lambda>x. arrays (x, z td))"

definition velprof_calc_tsrun :: "axform \<Rightarrow> tsrun \<Rightarrow> int \<Rightarrow> error + plotpair" where
  "velprof_calc_tsrun self tr c =
     ebind (column3 (prof tr) c (snd (grid_ihub (grid tr)))) (\<lambda>x.
     arrays (x, grid_z (grid tr)))"

definition tkeprof_calc_tsdata :: "axform \<Rightarrow> tsdata \<Rightarrow> int \<Rightarrow> error + plotpair" where
  "tkeprof_calc_tsdata self td c =
     ebind (column3 (tke td) c (snd (ihub td))) (\<lambda>x. arrays (x, z td))"

definition tkeprof_calc_tsrun :: "axform \<Rightarrow> tsrun \<Rightarrow> int \<Rightarrow> error + plotpair" where
  "tkeprof_calc_tsrun self tr c =
     ebind (column3 (spec_tke tr) c (snd (grid_ihub (grid tr)))) (\<lambda>x.
     arrays (x, grid_z (grid tr)))"

text \<open>
  \<^verbatim>\<open>igrid or d\<close> for an optional integer \<open>igrid\<close>: \<^verbatim>\<open>None\<close> and \<^verbatim>\<open>0\<close> are both
  false, so both give \<open>d\<close>.
\<close>

definition or_index :: "int option \<Rightarrow> int \<Rightarrow> int" where
  "or_index ig d = (case ig of None \<Rightarrow> d | Some i \<Rightarrow> if i = 0 then d else i)"

definition stressprof_calc_tsdata ::
    "axform \<Rightarrow> tsdata \<Rightarrow> int \<Rightarrow> int option \<Rightarrow> error + plotpair" where
  "stressprof_calc_tsdata self td c ig =
     (let ig' = or_index ig (snd (ihub td))
      in ebind (column3 (stress td) c ig') (\<lambda>x. arrays (x, z td)))"

definition stressprof_calc_tsrun ::
    "axform \<Rightarrow> tsrun \<Rightarrow> int \<Rightarrow> int option \<Rightarrow> error + plotpair" where
  "stressprof_calc_tsrun self tr c ig =
     (let ig' = or_index ig (snd (grid_ihub (grid tr)))
      in ebind (column3 (stress_array tr) c ig') (\<lambda>x. arrays (x, grid_z (grid tr))))"

text \<open>
  \<^verbatim>\<open>a or b or c\<close> for grid points: a pair (iz, iy) is a non-empty tuple and so true;
  only \<^verbatim>\<open>None\<close> falls through.
\<close>

definition or_point :: "(int \<times> int) option \<Rightarrow> (int \<times> int) option \<Rightarrow> int \<times> int \<Rightarrow> int \<times> int" where
  "or_point a b c = (case a of Some g \<Rightarrow> g | None \<Rightarrow> (case b of Some g \<Rightarrow> g | None \<Rightarrow> c))"

definition get_window_time :: "axform \<Rightarrow> error + real" where
  "get_window_time self =
     (case window_time self of None \<Rightarrow> Inl (AttributeError ''window_time'') | Some w \<Rightarrow> Inr w)"

text \<open>
  The two lines \<^verbatim>\<open>nfft=int(self.window_time/tsdata.dt); nfft+=np.mod(nfft,2)\<close>, which
  open both \<^verbatim>\<open>spec_axForm._calc_tsdata\<close> and \<^verbatim>\<open>cohere_axForm._calc_tsdata\<close>.
\<close>

definition calc_nfft :: "axform \<Rightarrow> tsdata \<Rightarrow> error + int" where
  "calc_nfft self td =
     ebind (get_window_time self) (\<lambda>w.
     ebind (py_div w (dt td)) (\<lambda>q.
     ebind (py_int q) (\<lambda>nfft.
     Inr (nfft + nfft mod 2))))"

definition spec_calc_tsdata ::
    "mlab \<Rightarrow> axform \<Rightarrow> tsdata \<Rightarrow> int \<Rightarrow> (int \<times> int) option \<Rightarrow> error + plotpair" where
  "spec_calc_tsdata L self td c ig =
     ebind (calc_nfft self td) (\<lambda>nfft.
     (let ig' = or_point ig (igrid self) (ihub td)
      in ebind (series4 (uturb td) c ig') (\<lambda>u.
         ebind (py_div 1 (dt td)) (\<lambda>sr.
         ebind (psd L u sr nfft) arrays))))"

definition spec_calc_tsrun ::
    "axform \<Rightarrow> tsrun \<Rightarrow> int \<Rightarrow> (int \<times> int) option \<Rightarrow> error + plotpair" where
  "spec_calc_tsrun self tr c ig =
     (let ig' = or_point ig (igrid self) (grid_ihub (grid tr))
      in ebind (series4 (spec tr) c ig') (\<lambda>s. arrays (grid_f (grid tr), s)))"

definition cohere_calc_tsdata ::
    "mlab \<Rightarrow> axform \<Rightarrow> tsdata \<Rightarrow> int \<Rightarrow> (int \<times> int) option \<Rightarrow> (int \<times> int) option
      \<Rightarrow> error + plotpair" where
  "cohere_calc_tsdata L self td c ig0 ig1 =
     ebind (calc_nfft self td) (\<lambda>nfft.
     (let ig0' = or_point ig0 (igrid0 self) (ihub td);
          ig1' = or_point ig1 (igrid1 self) (0, 0)
      in ebind (series4 (uturb td) c ig0') (\<lambda>u1.
         ebind (series4 (uturb td) c ig1') (\<lambda>u2.
         ebind (py_div 1 (dt td)) (\<lambda>sr.
         ebind (coh L u1 u2 sr nfft) arrays)))))"

definition cohere_calc_tsrun ::
    "axform \<Rightarrow> tsrun \<Rightarrow> int \<Rightarrow> (int \<times> int) option \<Rightarrow> (int \<times> int) option
      \<Rightarrow> error + plotpair" where
  "cohere_calc_tsrun self tr c ig0 ig1 =
     (let i0 = sub2ind (grid tr) (or_point ig0 (igrid0 self) (grid_ihub (grid tr)));
          i1 = sub2ind (grid tr) (or_point ig1 (igrid1 self) (0, 0))
      in arrays (grid_f (grid tr),
           map (\<lambda>v. v ^ 2) (calcCoh tr (grid_f (grid tr)) c i0 i1)))"

subsection \<open>Dispatch on the class of the object\<close>

definition indx :: "string \<rightharpoonup> int" where
  "indx = [''u'' \<mapsto> 0, ''v'' \<mapsto> 1, ''w'' \<mapsto> 2]"

text \<open>
  \<^verbatim>\<open>method_map={tsdata:'_calc_tsdata',tsrun:'_calc_tsrun'}\<close>, as the list of items
  \<^verbatim>\<open>iteritems()\<close> walks through. The order of a dictionary's items is not fixed by
  the language, so the dispatch takes the list as an argument.
\<close>

definition method_map :: "(pyclass \<times> string) list" where
  "method_map = [(Cls_tsdata, ''_calc_tsdata''), (Cls_tsrun, ''_calc_tsrun'')]"

text \<open>
  The bound methods of a format, by its class: \<open>calc_tsdata_of\<close> is
  \<^verbatim>\<open>getattr(self,'_calc_tsdata')\<close>, \<open>None\<close> when the class defines no such method
  (\<^verbatim>\<open>base_axForm\<close> and \<^verbatim>\<open>prof_axForm\<close> define neither).
\<close>

definition calc_tsdata_of ::
    "mlab \<Rightarrow> axform \<Rightarrow> (tsdata \<Rightarrow> int \<Rightarrow> error + plotpair) option" where
  "calc_tsdata_of L self =
     (case fclass self of
        Base_axForm \<Rightarrow> None
      | Prof_axForm \<Rightarrow> None
      | Velprof_axForm \<Rightarrow> Some (velprof_calc_tsdata self)
      | Tkeprof_axForm \<Rightarrow> Some (tkeprof_calc_tsdata self)
      | Stressprof_axForm \<Rightarrow> Some (\<lambda>td c. stressprof_calc_tsdata self td c None)
      | Spec_axForm \<Rightarrow> Some (\<lambda>td c. spec_calc_tsdata L self td c None)
      | Cohere_axForm \<Rightarrow> Some (\<lambda>td c. cohere_calc_tsdata L self td c None None))"

definition calc_tsrun_of ::
    "axform \<Rightarrow> (tsrun \<Rightarrow> int \<Rightarrow> error + plotpair) option" where
  "calc_tsrun_of self =
     (case fclass self of
        Base_axForm \<Rightarrow> None
      | Prof_axForm \<Rightarrow> None
      | Velprof_axForm \<Rightarrow> Some (velprof_calc_tsrun self)
      | Tkeprof_axForm \<Rightarrow> Some (tkeprof_calc_tsrun self)
      | Stressprof_axForm \<Rightarrow> Some (\<lambda>tr c. stressprof_calc_tsrun self tr c None)
      | Spec_axForm \<Rightarrow> Some (\<lambda>tr c. spec_calc_tsrun self tr c None)
      | Cohere_axForm \<Rightarrow> Some (\<lambda>tr c. cohere_calc_tsrun self tr c None None))"

definition getattr_method ::
    "mlab \<Rightarrow> axform \<Rightarrow> string \<Rightarrow> (pyobj \<Rightarrow> int \<Rightarrow> error + plotpair) option" where
  "getattr_method L self meth =
     (if meth = ''_calc_tsdata''
      then map_option (\<lambda>m obj. m (as_tsdata obj)) (calc_tsdata_of L self)
      else if meth = ''_calc_tsrun''
      then map_option (\<lambda>m obj. m (as_tsrun obj)) (calc_tsrun_of self)
      else None)"

text \<open>
  The loop of \<^verbatim>\<open>base_axForm._calc\<close> over the items of \<^verbatim>\<open>method_map\<close>: the first
  class found in the object's \<^verbatim>\<open>__mro__\<close> decides; a format without the method
  returns the pair of \<^verbatim>\<open>np.NaN\<close>; when the loop ends the exception is raised.
\<close>

fun calc_loop ::
    "mlab \<Rightarrow> axform \<Rightarrow> pyobj \<Rightarrow> int \<Rightarrow> (pyclass \<times> string) list \<Rightarrow> error + plotpair" where
  "calc_loop L self obj c [] = Inl (Unrecognized (obj_class obj) (fclass self))"
| "calc_loop L self obj c ((cls, meth) # rest) =
     (if cls \<in> set (mro obj)
      then (case getattr_method L self meth of
              None \<Rightarrow> Inr (NaN, NaN)
            | Some m \<Rightarrow> m obj c)
      else calc_loop L self obj c rest)"

definition component_index :: "component \<Rightarrow> error + int" where
  "component_index cmp =
     (case cmp of
        CInt i \<Rightarrow> Inr i
      | CStr s \<Rightarrow> (case indx s of None \<Rightarrow> Inl (KeyError (CStr s)) | Some i \<Rightarrow> Inr i))"

definition calc_items ::
    "mlab \<Rightarrow> (pyclass \<times> string) list \<Rightarrow> axform \<Rightarrow> pyobj \<Rightarrow> component
      \<Rightarrow> error + plotpair" where
  "calc_items L items self obj cmp =
     ebind (component_index cmp) (\<lambda>c. calc_loop L self obj c items)"

definition calc :: "mlab \<Rightarrow> axform \<Rightarrow> pyobj \<Rightarrow> component \<Rightarrow> error + plotpair" where
  "calc L self obj cmp = calc_items L method_map self obj cmp"

section \<open>Drawing on axes\<close>

text \<open>
  The axes of a figure form a grid; an axes is named by its (row, column). Each axes of
  a \<^verbatim>\<open>fig_axForms\<close> figure carries the attribute \<^verbatim>\<open>comp\<close>. What a function draws is
  the list of the calls it makes on the axes, in order. Keyword arguments that only
  style a line are left out of the events.
\<close>

type_synonym axis = "nat \<times> nat"

record ax =
  ax_id :: axis
  ax_comp :: component

datatype event =
    Hide "axis list" string "axis option"
  | Set_ylabel axis string
  | Set_xlabel axis string
  | Set_title axis string
  | Vln axis real
  | AnnoteCorner axis string
  | Plot axis plotval plotval
  | Set_xscale axis string
  | Set_yscale axis string
  | Loglog axis "real list" "real list"
  | Semilogx axis "real list" "real list"
  | Fig_text string

text \<open>The \<^verbatim>\<open>%d\<close> conversion of an integer.\<close>

function show_nat :: "nat \<Rightarrow> string" where
  "show_nat n =
     (if n < 10 then [''0123456789'' ! n]
      else show_nat (n div 10) @ [''0123456789'' ! (n mod 10)])"
  by pat_completeness auto
termination
  by (relation "measure id") auto

declare show_nat.simps [simp del]

definition show_int :: "int \<Rightarrow> string" where
  "show_int i = (if i < 0 then CHR ''-'' # show_nat (nat (- i)) else show_nat (nat i))"

text \<open>
  The attribute \<^verbatim>\<open>_xlabel\<close>: the class attribute where a class sets one, else the
  property of \<^verbatim>\<open>base_axForm\<close>. It is never absent.
\<close>

definition get_xlabel :: "axform \<Rightarrow> string" where
  "get_xlabel self =
     (case xlabel self of
        Some s \<Rightarrow> s
      | None \<Rightarrow>
          if lin_x_scale self = 0 then ''$'' @ bslash # ''mathrm{[m^2s^{-2}]}$''
          else ''$'' @ bslash # ''mathrm{[10^{'' @ show_int (lin_x_scale self)
                 @ ''}m^2s^{-2}]}$'')"

text \<open>\<^verbatim>\<open>ax.annoteCorner(self._labels[ax.comp],pos='ul')\<close> for each axes in turn.\<close>

fun annote_axes :: "(string \<times> string) list \<Rightarrow> ax list \<Rightarrow> error + event list" where
  "annote_axes labs [] = Inr []"
| "annote_axes labs (a # rest) =
     (case ax_comp a of
        CInt i \<Rightarrow> Inl (KeyError (CInt i))
      | CStr s \<Rightarrow>
          (case map_of labs s of
             None \<Rightarrow> Inl (KeyError (CStr s))
           | Some l \<Rightarrow>
               ebind (annote_axes labs rest) (\<lambda>evs. Inr (AnnoteCorner (ax_id a) l # evs))))"

text \<open>
  The steps of \<^verbatim>\<open>base_axForm.finalize\<close>, one per statement, on a group of axes that
  is not empty: hiding tick labels, the y labels, the x label, the title, the grid
  lines and the corner annotations.
\<close>

definition hide_step :: "axform \<Rightarrow> ax list \<Rightarrow> event list" where
  "hide_step self axes =
     Hide (map ax_id axes) ''xticklabels'' (Some (ax_id (last axes)))
       # (if hide_ylabels self then [Hide (map ax_id axes) ''yticklabels'' None] else [])"

definition ylabel_step :: "axform \<Rightarrow> ax list \<Rightarrow> event list" where
  "ylabel_step self axes =
     (if \<not> hide_ylabels self
      then (case ylabel self of
              None \<Rightarrow> []
            | Some l \<Rightarrow> map (\<lambda>a. Set_ylabel (ax_id a) l) axes)
      else [])"

definition xlabel_step :: "axform \<Rightarrow> ax list \<Rightarrow> event list" where
  "xlabel_step self axes = [Set_xlabel (ax_id (last axes)) (get_xlabel self)]"

definition title_step :: "axform \<Rightarrow> ax list \<Rightarrow> event list" where
  "title_step self axes =
     (case title self of None \<Rightarrow> [] | Some t \<Rightarrow> [Set_title (ax_id (hd axes)) t])"

definition grid_step :: "axform \<Rightarrow> ax list \<Rightarrow> event list" where
  "grid_step self axes =
     (case grid_x self of
        None \<Rightarrow> []
      | Some vals \<Rightarrow> concat (map (\<lambda>a. map (Vln (ax_id a)) vals) axes))"

definition labels_step :: "axform \<Rightarrow> ax list \<Rightarrow> error + event list" where
  "labels_step self axes =
     (case labels self of None \<Rightarrow> Inr [] | Some labs \<Rightarrow> annote_axes labs axes)"

text \<open>
  \<^verbatim>\<open>finalize(self,axes)\<close>. The first statement reads \<^verbatim>\<open>axes[-1]\<close>, which fails on an
  empty group; after that only the lookup \<^verbatim>\<open>self._labels[ax.comp]\<close> can fail.
\<close>

definition finalize :: "axform \<Rightarrow> ax list \<Rightarrow> error + event list" where
  "finalize self axes =
     (if axes = [] then Inl IndexError
      else
        ebind (labels_step self axes) (\<lambda>annotations.
        Inr (hide_step self axes @ ylabel_step self axes @ xlabel_step self axes
               @ title_step self axes @ grid_step self axes @ annotations)))"

text \<open>\<^verbatim>\<open>x/(10**self._lin_x_scale)\<close>.\<close>

definition pow10 :: "int \<Rightarrow> real" where
  "pow10 k = (if 0 \<le> k then 10 ^ nat k else 1 / 10 ^ nat (- k))"

definition scale_x :: "int \<Rightarrow> plotval \<Rightarrow> plotval" where
  "scale_x k x = (case x of NaN \<Rightarrow> NaN | Arr xs \<Rightarrow> Arr (map (\<lambda>v. v / pow10 k) xs))"

fun plot :: "mlab \<Rightarrow> axform \<Rightarrow> pyobj \<Rightarrow> ax list \<Rightarrow> error + event list" where
  "plot L self obj [] = Inr []"
| "plot L self obj (a # rest) =
     ebind (calc L self obj (ax_comp a)) (\<lambda>(x, y).
     ebind (plot L self obj rest) (\<lambda>evs.
     Inr ([Plot (ax_id a) (scale_x (lin_x_scale self) x) y,
           Set_xscale (ax_id a) (xscale self),
           Set_yscale (ax_id a) (yscale self)] @ evs)))"


section \<open>Figures built from formats\<close>

text \<open>
  Format objects are shared by reference: the list \<^verbatim>\<open>axforms\<close> holds addresses into a
  store, and an assignment to an attribute of a format updates the store. The spacer
  built by \<^verbatim>\<open>supax.simpleAxSpacer\<close> is an argument, as the layout library is not part
  of the module. The arrays \<^verbatim>\<open>sharex\<close> and \<^verbatim>\<open>sharey\<close> repeat one row of
  \<^verbatim>\<open>uint8\<close> values \<^verbatim>\<open>len(comp)\<close> times; the loop works on the row.
\<close>

type_synonym store = "nat \<Rightarrow> axform"

record spacer =
  gap :: "real list"
  axsize :: "real list"

record fig_axForms =
  fig_comp :: "component list"
  axforms :: "nat list"
  sharex :: "nat list list"
  sharey :: "nat list list"
  hspacer :: spacer
  sax :: "ax list list"

text \<open>
  The body of the loop of \<^verbatim>\<open>fig_axForms.__init__\<close> over the formats, and the loop:
  a format whose \<^verbatim>\<open>yax\<close> equals that of the format before it shares its y-axis,
  gets the tight gap and has \<^verbatim>\<open>hide_ylabels\<close> set; its width is scaled by
  \<^verbatim>\<open>hrel\<close>. The state is the store, the row of \<^verbatim>\<open>sharey\<close>, the horizontal spacer
  and \<^verbatim>\<open>last_yax\<close>.
\<close>

definition init_step ::
    "real \<Rightarrow> nat \<Rightarrow> nat \<Rightarrow> store \<times> nat list \<times> spacer \<times> string option
      \<Rightarrow> error + (store \<times> nat list \<times> spacer \<times> string option)" where
  "init_step tightgap idx a st =
     (case st of (h, row, hsp, last_yax) \<Rightarrow>
        (case yax (h a) of
           None \<Rightarrow> Inl (AttributeError ''yax'')
         | Some y \<Rightarrow>
             ebind
               (if Some y = last_yax
                then (if idx < length (gap hsp)
                      then Inr (h(a := (h a)\<lparr>hide_ylabels := True\<rparr>),
                                row[idx := row ! (if idx = 0 then length row - 1 else idx - 1)],
                                hsp\<lparr>gap := (gap hsp)[idx := tightgap]\<rparr>)
                      else Inl IndexError)
                else Inr (h, row, hsp))
               (\<lambda>(h', row', hsp').
             ebind
               (case hrel (h' a) of
                  None \<Rightarrow> Inr hsp'
                | Some r \<Rightarrow>
                    if idx < length (axsize hsp')
                    then Inr (hsp'\<lparr>axsize := (axsize hsp')[idx := axsize hsp' ! idx * r]\<rparr>)
                    else Inl IndexError)
               (\<lambda>hsp''. Inr (h', row', hsp'', Some y)))))"

fun init_loop ::
    "real \<Rightarrow> nat list \<Rightarrow> nat \<Rightarrow> store \<times> nat list \<times> spacer \<times> string option
      \<Rightarrow> error + (store \<times> nat list \<times> spacer \<times> string option)" where
  "init_loop tightgap [] idx st = Inr st"
| "init_loop tightgap (a # rest) idx st =
     ebind (init_step tightgap idx a st) (init_loop tightgap rest (Suc idx))"

definition fig_axForms_init ::
    "store \<Rightarrow> nat list \<Rightarrow> component list \<Rightarrow> spacer \<Rightarrow> real
      \<Rightarrow> error + (store \<times> fig_axForms)" where
  "fig_axForms_init h axfs cmps hspacer0 tightgap =
     (if length axfs = 0 then Inl NoAxForms
      else
        (let row = map (\<lambda>i. (i + 1) mod 256) [0..<length axfs]
         in ebind (init_loop tightgap axfs 0 (h, row, hspacer0, None))
              (\<lambda>(h', row', hsp', last_yax).
            Inr (h',
              \<lparr>fig_comp = cmps, axforms = axfs,
               sharex = replicate (length cmps) row,
               sharey = replicate (length cmps) row',
               hspacer = hsp',
               sax = map (\<lambda>idx. map (\<lambda>(r, c). \<lparr>ax_id = (r, idx), ax_comp = c\<rparr>)
                                   (zip [0..<length cmps] cmps))
                         [0..<length axfs]\<rparr>))))"

text \<open>\<^verbatim>\<open>fig_axForms.plot\<close>: each format plots into its column of axes.\<close>

fun plot_columns ::
    "mlab \<Rightarrow> store \<Rightarrow> pyobj \<Rightarrow> (nat \<times> ax list) list \<Rightarrow> error + event list" where
  "plot_columns L h obj [] = Inr []"
| "plot_columns L h obj ((a, col) # rest) =
     ebind (plot L (h a) obj col) (\<lambda>evs.
     ebind (plot_columns L h obj rest) (\<lambda>evs'. Inr (evs @ evs')))"

definition fig_axForms_plot ::
    "mlab \<Rightarrow> store \<Rightarrow> fig_axForms \<Rightarrow> pyobj \<Rightarrow> error + (store \<times> event list)" where
  "fig_axForms_plot L h fg obj =
     ebind (plot_columns L h obj (zip (axforms fg) (sax fg))) (\<lambda>evs. Inr (h, evs))"

text \<open>
  \<^verbatim>\<open>fig_axForms.finalize\<close>: each format finishes its column, then the figure is
  labelled with \<^verbatim>\<open>'$'+c+'$'\<close> for each component, which needs a string.
\<close>

fun finalize_columns :: "store \<Rightarrow> (nat \<times> ax list) list \<Rightarrow> error + event list" where
  "finalize_columns h [] = Inr []"
| "finalize_columns h ((a, col) # rest) =
     ebind (finalize (h a) col) (\<lambda>evs.
     ebind (finalize_columns h rest) (\<lambda>evs'. Inr (evs @ evs')))"

fun fig_texts :: "component list \<Rightarrow> error + event list" where
  "fig_texts [] = Inr []"
| "fig_texts (CInt i # rest) = Inl TypeError"
| "fig_texts (CStr s # rest) =
     ebind (fig_texts rest) (\<lambda>evs. Inr (Fig_text (''$'' @ s @ ''$'') # evs))"

definition fig_axForms_finalize ::
    "store \<Rightarrow> fig_axForms \<Rightarrow> error + (store \<times> event list)" where
  "fig_axForms_finalize h fg =
     ebind (finalize_columns h (zip (axforms fg) (sax fg))) (\<lambda>evs.
     ebind (case sax fg of
              [] \<Rightarrow> Inl IndexError
            | col # cols \<Rightarrow> fig_texts (map fst (zip (fig_comp fg) col))) (\<lambda>evs'.
     Inr (h, evs @ evs')))"

section \<open>Spectra drawn straight from the library\<close>

text \<open>
  The call \<^verbatim>\<open>mpl.mlab.psd(tsdata.uturb[ind][igrid],nfft,1./tsdata.dt,...,
  noverlap=nfft/2)\<close> of \<^verbatim>\<open>plot_spectra\<close> and \<^verbatim>\<open>summfig.plot_spec\<close>, and the call of
  \<^verbatim>\<open>mpl.mlab.cohere\<close> of \<^verbatim>\<open>summfig.plot_coh\<close>. The result is the library's pair.
\<close>

definition direct_psd ::
    "mlab \<Rightarrow> tsdata \<Rightarrow> int \<Rightarrow> nat \<Rightarrow> int \<times> int \<Rightarrow> error + (real list \<times> real list)" where
  "direct_psd L td nfft ind ig =
     ebind (series4 (uturb td) (int ind) ig) (\<lambda>u.
     ebind (py_div 1 (dt td)) (\<lambda>sr.
     lib_result (mlab_psd L u nfft sr (nfft div 2))))"

definition direct_cohere ::
    "mlab \<Rightarrow> tsdata \<Rightarrow> int \<Rightarrow> nat \<Rightarrow> int \<times> int \<Rightarrow> int \<times> int
      \<Rightarrow> error + (real list \<times> real list)" where
  "direct_cohere L td nfft ind ig ic =
     ebind (series4 (uturb td) (int ind) ig) (\<lambda>u1.
     ebind (series4 (uturb td) (int ind) ic) (\<lambda>u2.
     ebind (py_div 1 (dt td)) (\<lambda>sr.
     lib_result (mlab_cohere L u1 u2 nfft sr (nfft div 2)))))"

text \<open>The line of the theoretical spectrum \<^verbatim>\<open>tsdata.tm.Suu[ind][igrid]\<close>.\<close>

definition theory_spectrum ::
    "turbmodel \<Rightarrow> nat \<Rightarrow> int \<times> int \<Rightarrow> axis \<Rightarrow> error + event list" where
  "theory_spectrum m ind ig a =
     ebind (series4 (Suu m) (int ind) ig) (\<lambda>s. Inr [Loglog a (tm_f m) s])"

text \<open>
  \<^verbatim>\<open>plot_spectra\<close> draws into the first column of a \<^verbatim>\<open>specfig\<close>.
  \<open>igrid\<close> is \<open>None\<close> or a grid point.
\<close>

fun plot_spectra_loop ::
    "mlab \<Rightarrow> tsdata \<Rightarrow> int \<Rightarrow> int \<times> int \<Rightarrow> nat list \<Rightarrow> error + event list" where
  "plot_spectra_loop L td nfft ig [] = Inr []"
| "plot_spectra_loop L td nfft ig (ind # rest) =
     ebind (direct_psd L td nfft ind ig) (\<lambda>(p, f).
     ebind (case tm td of
              None \<Rightarrow> Inr []
            | Some m \<Rightarrow> theory_spectrum m ind ig (ind, 0))
       (\<lambda>theory.
     ebind (plot_spectra_loop L td nfft ig rest) (\<lambda>evs.
     Inr (Loglog (ind, 0) f p # theory @ evs))))"

definition plot_spectra ::
    "mlab \<Rightarrow> tsdata \<Rightarrow> int \<Rightarrow> (int \<times> int) option \<Rightarrow> error + event list" where
  "plot_spectra L td nfft ig =
     (let ig' = (case ig of None \<Rightarrow> ihub td | Some g \<Rightarrow> g)
      in plot_spectra_loop L td nfft ig' [0, 1, 2])"

section \<open>The summary figure\<close>

text \<open>
  A value bound to a parameter of \<^verbatim>\<open>setinds\<close>, or stored in \<^verbatim>\<open>_igrid\<close> or
  \<^verbatim>\<open>_icoh\<close>: \<^verbatim>\<open>None\<close>, a grid point, or a data object.
\<close>

datatype pyval = PyNone | PyPoint "int \<times> int" | PyData tsdata

text \<open>
  The attributes of a \<^verbatim>\<open>summfig\<close>; \<open>sf_igrid\<close> and \<open>sf_icoh\<close> are \<^verbatim>\<open>_igrid\<close> and
  \<^verbatim>\<open>_icoh\<close>, \<open>None\<close> while the attribute is not set. Its axes grid has the columns
  \<^verbatim>\<open>ax_prof\<close>, \<^verbatim>\<open>ax_spec\<close>, \<^verbatim>\<open>ax_cohr\<close>, \<^verbatim>\<open>ax_tke\<close>, \<^verbatim>\<open>ax_rstr\<close> (0 to 4).
\<close>

record summfig =
  sf_nfft :: int
  sf_igrid :: "pyval option"
  sf_icoh :: "pyval option"

definition summfig_init :: "int \<Rightarrow> summfig" where
  "summfig_init nfft = \<lparr>sf_nfft = nfft, sf_igrid = None, sf_icoh = None\<rparr>"

definition ax_prof :: "nat \<Rightarrow> axis" where
  "ax_prof ind = (ind, 0)"

definition ax_spec :: "nat \<Rightarrow> axis" where
  "ax_spec ind = (ind, 1)"

definition ax_cohr :: "nat \<Rightarrow> axis" where
  "ax_cohr ind = (ind, 2)"

text \<open>The properties \<^verbatim>\<open>igrid\<close> and \<^verbatim>\<open>icoh\<close>: the getter sets the default.\<close>

definition get_igrid :: "summfig \<Rightarrow> summfig \<times> pyval" where
  "get_igrid self =
     (case sf_igrid self of
        None \<Rightarrow> (self\<lparr>sf_igrid := Some (PyPoint (0, 0))\<rparr>, PyPoint (0, 0))
      | Some v \<Rightarrow> (self, v))"

definition set_igrid :: "summfig \<Rightarrow> pyval \<Rightarrow> summfig" where
  "set_igrid self val = self\<lparr>sf_igrid := Some val\<rparr>"

definition get_icoh :: "summfig \<Rightarrow> summfig \<times> pyval" where
  "get_icoh self =
     (case sf_icoh self of
        None \<Rightarrow> (self\<lparr>sf_icoh := Some (PyPoint (- 1, - 1))\<rparr>, PyPoint (- 1, - 1))
      | Some v \<Rightarrow> (self, v))"

definition set_icoh :: "summfig \<Rightarrow> pyval \<Rightarrow> summfig" where
  "set_icoh self val = self\<lparr>sf_icoh := Some val\<rparr>"

text \<open>\<^verbatim>\<open>v.ihub\<close> on whatever value is bound to the parameter.\<close>

definition getattr_ihub :: "pyval \<Rightarrow> error + pyval" where
  "getattr_ihub v =
     (case v of PyData td \<Rightarrow> Inr (PyPoint (ihub td)) | _ \<Rightarrow> Inl (AttributeError ''ihub''))"

text \<open>\<^verbatim>\<open>setinds(self,tsdata,igrid=None,icoh=None)\<close>.\<close>

definition setinds :: "summfig \<Rightarrow> pyval \<Rightarrow> pyval \<Rightarrow> pyval \<Rightarrow> error + summfig" where
  "setinds self tsd ig ic =
     ebind (case ig of
              PyNone \<Rightarrow> ebind (getattr_ihub tsd) (\<lambda>v. Inr (set_igrid self v))
            | _ \<Rightarrow> Inr (set_igrid self ig))
       (\<lambda>self'.
     Inr (case ic of
            PyNone \<Rightarrow> set_icoh self' (PyPoint (0, 0))
          | _ \<Rightarrow> set_icoh self' ic))"

text \<open>
  A stored value used as a grid point (\<^verbatim>\<open>a[v]\<close>, \<^verbatim>\<open>v[1]\<close>). Indexing an array with
  \<^verbatim>\<open>None\<close>, which the array library reads as a new axis, is outside the model and is
  refused like every value that is not a grid point.
\<close>

definition as_point :: "pyval \<Rightarrow> error + int \<times> int" where
  "as_point v = (case v of PyPoint g \<Rightarrow> Inr g | _ \<Rightarrow> Inl TypeError)"

fun plot_prof_loop :: "tsdata \<Rightarrow> int \<Rightarrow> nat list \<Rightarrow> error + event list" where
  "plot_prof_loop td iy [] = Inr []"
| "plot_prof_loop td iy (ind # rest) =
     ebind (column3 (uprof td) (int ind) iy) (\<lambda>x.
     ebind (plot_prof_loop td iy rest) (\<lambda>evs.
     Inr (Plot (ax_prof ind) (Arr x) (Arr (z td)) # evs)))"

definition plot_prof :: "summfig \<Rightarrow> tsdata \<Rightarrow> error + (summfig \<times> event list)" where
  "plot_prof self td =
     (case get_igrid self of (self', v) \<Rightarrow>
        ebind (as_point v) (\<lambda>g.
        ebind (plot_prof_loop td (snd g) [0, 1, 2]) (\<lambda>evs. Inr (self', evs))))"

fun plot_spec_loop ::
    "mlab \<Rightarrow> int \<Rightarrow> tsdata \<Rightarrow> bool \<Rightarrow> int \<times> int \<Rightarrow> nat list \<Rightarrow> error + event list" where
  "plot_spec_loop L nfft td theory_line ig [] = Inr []"
| "plot_spec_loop L nfft td theory_line ig (ind # rest) =
     ebind (direct_psd L td nfft ind ig) (\<lambda>(p, f).
     ebind (case tm td of
              None \<Rightarrow> Inr []
            | Some m \<Rightarrow> if theory_line then theory_spectrum m ind ig (ax_spec ind) else Inr [])
       (\<lambda>theory.
     ebind (plot_spec_loop L nfft td theory_line ig rest) (\<lambda>evs.
     Inr (Loglog (ax_spec ind) f p # theory @ evs))))"

definition plot_spec ::
    "mlab \<Rightarrow> summfig \<Rightarrow> tsdata \<Rightarrow> bool \<Rightarrow> error + (summfig \<times> event list)" where
  "plot_spec L self td theory_line =
     (case get_igrid self of (self', v) \<Rightarrow>
        ebind (as_point v) (\<lambda>g.
        ebind (plot_spec_loop L (sf_nfft self') td theory_line g [0, 1, 2]) (\<lambda>evs.
        Inr (self', evs))))"

fun plot_coh_loop ::
    "mlab \<Rightarrow> int \<Rightarrow> tsdata \<Rightarrow> int \<times> int \<Rightarrow> int \<times> int \<Rightarrow> nat list \<Rightarrow> error + event list" where
  "plot_coh_loop L nfft td ig ic [] = Inr []"
| "plot_coh_loop L nfft td ig ic (ind # rest) =
     ebind (direct_cohere L td nfft ind ig ic) (\<lambda>(p, f).
     ebind (plot_coh_loop L nfft td ig ic rest) (\<lambda>evs.
     Inr (Semilogx (ax_cohr ind) f p # evs)))"

definition plot_coh :: "mlab \<Rightarrow> summfig \<Rightarrow> tsdata \<Rightarrow> error + (summfig \<times> event list)" where
  "plot_coh L self td =
     (case get_igrid self of (self1, v) \<Rightarrow>
        ebind (as_point v) (\<lambda>g.
        (case get_icoh self1 of (self2, w) \<Rightarrow>
           ebind (as_point w) (\<lambda>gc.
           ebind (plot_coh_loop L (sf_nfft self2) td g gc [0, 1, 2]) (\<lambda>evs.
           Inr (self2, evs))))))"

text \<open>
  \<^verbatim>\<open>savefig(self,*args,**kwargs)\<close>; the figure's own \<^verbatim>\<open>savefig\<close> is an argument.
\<close>

datatype pyarg = ArgNone | ArgInt int | ArgReal real | ArgStr string

definition setdefault :: "('k \<rightharpoonup> 'v) \<Rightarrow> 'k \<Rightarrow> 'v \<Rightarrow> ('k \<rightharpoonup> 'v)" where
  "setdefault d k v = (case d k of None \<Rightarrow> d(k \<mapsto> v) | Some old \<Rightarrow> d)"

definition savefig ::
    "(pyarg list \<Rightarrow> (string \<rightharpoonup> pyarg) \<Rightarrow> 'r) \<Rightarrow> pyarg list \<Rightarrow> (string \<rightharpoonup> pyarg) \<Rightarrow> 'r" where
  "savefig fig_savefig args kwargs = fig_savefig args (setdefault kwargs ''dpi'' (ArgInt 300))"

text \<open>
  \<^verbatim>\<open>showts(tsdata,fignum=2001,nfft=1024,igrid=None,icoh=None,**kwargs)\<close>: \<open>fignum\<close> is
  an existing \<^verbatim>\<open>summfig\<close> (\<open>Inl\<close>) or a figure number (\<open>Inr\<close>). A new \<^verbatim>\<open>summfig\<close> is
  built with the default \<^verbatim>\<open>nfft=1024\<close>, and \<^verbatim>\<open>setinds\<close> is called with the arguments
  (igrid, icoh, tsdata) in that order.
\<close>

definition showts ::
    "tsdata \<Rightarrow> summfig + int \<Rightarrow> int \<Rightarrow> pyval \<Rightarrow> pyval \<Rightarrow> error + (summfig \<times> event list)" where
  "showts td fignum nfft ig ic =
     ebind (case fignum of
              Inl fg \<Rightarrow> Inr fg
            | Inr n \<Rightarrow> setinds (summfig_init 1024) ig ic (PyData td))
       (\<lambda>fg. plot_prof fg td)"


section \<open>Example inputs\<close>

text \<open>
  A small data object on a grid of two heights and two lateral positions with four
  samples, sampled every 9/128 s (0.0703125, a double), and stand-ins for the library
  routines that return three bins starting at frequency 0.
\<close>

definition example_arr3 :: arr3 where
  "example_arr3 = \<lparr>shape3 = (3, 2, 2), dat3 = (\<lambda>c j i. real (4 * c + 2 * j + i))\<rparr>"

definition example_arr4 :: arr4 where
  "example_arr4 = \<lparr>shape4 = (3, 2, 2, 4), dat4 = (\<lambda>c j i t. real (c + j + i + t))\<rparr>"

definition example_dt :: real where
  "example_dt = 9 / 128"

definition example_tsdata :: tsdata where
  "example_tsdata =
     \<lparr>dt = example_dt, ihub = (1, 1), z = [10, 20], uturb = example_arr4,
      uprof = example_arr3, tke = example_arr3, stress = example_arr3, tm = None\<rparr>"



definition example_tsrun :: tsrun where
  "example_tsrun =
     \<lparr>grid = \<lparr>grid_z = [10, 20], grid_ihub = (1, 1), grid_f = [1, 2, 3, 4],
               sub2ind = (\<lambda>g. 2 * fst g + snd g)\<rparr>,
      prof = example_arr3, spec = example_arr4, spec_tke = example_arr3,
      stress_array = example_arr3,
      calcCoh = (\<lambda>f c i0 i1. map (\<lambda>v. 1 / (1 + v)) f)\<rparr>"

definition example_mlab :: mlab where
  "example_mlab =
     \<lparr>mlab_psd = (\<lambda>u nfft sr noverlap. Some ([9, 8, 7], [0, 1, 2])),
      mlab_cohere = (\<lambda>u1 u2 nfft sr noverlap. Some ([1, 1 / 2, 1 / 4], [0, 1, 2]))\<rparr>"

definition example_data_obj :: pyobj where
  "example_data_obj =
     \<lparr>obj_class = Cls_tsdata, obj_bases = [Cls_object],
      as_tsdata = example_tsdata, as_tsrun = example_tsrun\<rparr>"

definition example_run_obj :: pyobj where
  "example_run_obj =
     \<lparr>obj_class = Cls_tsrun, obj_bases = [Cls_object],
      as_tsdata = example_tsdata, as_tsrun = example_tsrun\<rparr>"

definition example_other_obj :: pyobj where
  "example_other_obj =
     \<lparr>obj_class = Cls_other ''dict'', obj_bases = [Cls_object],
      as_tsdata = example_tsdata, as_tsrun = example_tsrun\<rparr>"


text \<open>
  A column of two axes, and a store with a \<open>tkeprof_axForm\<close> at address 0 and a
  \<open>stressprof_axForm\<close> everywhere else, as in
  \<^verbatim>\<open>fig_axForms(1, axforms=[tkeprof_axForm(), stressprof_axForm()])\<close>.
\<close>

definition example_axes :: "nat \<Rightarrow> ax list" where
  "example_axes col =
     [\<lparr>ax_id = (0, col), ax_comp = CStr ''u''\<rparr>, \<lparr>ax_id = (1, col), ax_comp = CStr ''v''\<rparr>]"

definition example_store :: store where
  "example_store =
     (\<lambda>a. if a = 0 then tkeprof_axForm [Some 0, None] else stressprof_axForm [Some 0, None])"

definition example_spacer :: spacer where
  "example_spacer = \<lparr>gap = [1, 1], axsize = [2, 2]\<rparr>"

text \<open>A figure of one row and one column whose format is the one at address 0.\<close>

definition example_fig :: fig_axForms where
  "example_fig =
     \<lparr>fig_comp = [CStr ''u''], axforms = [0], sharex = [[1]], sharey = [[1]],
      hspacer = \<lparr>gap = [1], axsize = [2 * (6 / 10)]\<rparr>,
      sax = [[\<lparr>ax_id = (0, 0), ax_comp = CStr ''u''\<rparr>]]\<rparr>"

text \<open>The value of \<^verbatim>\<open>hide_ylabels\<close> of the format at an address once a call has returned.\<close>

definition hide_ylabels_after :: "nat \<Rightarrow> error + (store \<times> 'a) \<Rightarrow> error + bool" where
  "hide_ylabels_after a r = (case r of Inl e \<Rightarrow> Inl e | Inr (h, x) \<Rightarrow> Inr (hide_ylabels (h a)))"

section \<open>Properties\<close>

subsection \<open>Results and errors\<close>

lemma ebind_Inr_iff: "ebind m k = Inr y \<longleftrightarrow> (\<exists>x. m = Inr x \<and> k x = Inr y)"
  by (cases m) (simp_all add: ebind_def)

lemma lib_result_Inr_iff: "lib_result r = Inr v \<longleftrightarrow> r = Some v"
  by (cases r) (simp_all add: lib_result_def)

lemma ebind_Inl_iff:
  "ebind m k = Inl e \<longleftrightarrow> m = Inl e \<or> (\<exists>x. m = Inr x \<and> k x = Inl e)"
  by (cases m) (simp_all add: ebind_def)

subsection \<open>Rounding to a double\<close>










subsection \<open>The window duration stored by the spectral formats\<close>

text \<open>
  Claim C8. Whatever \<open>window_time_sec\<close> the caller passes, the constructors of
  \<open>spec_axForm\<close> and \<open>cohere_axForm\<close> store the window duration 600, so the format
  built from any argument is the one built from 600, and the window length both
  \<^verbatim>\<open>_calc_tsdata\<close> methods compute is that of a 600 second window.
\<close>

theorem window_time_always_600:
  "window_time (spec_axForm w ig) = Some 600
   \<and> window_time (cohere_axForm w ig0 ig1) = Some 600
   \<and> spec_axForm w ig = spec_axForm 600 ig
   \<and> cohere_axForm w ig0 ig1 = cohere_axForm 600 ig0 ig1
   \<and> calc_nfft (spec_axForm w ig) td
       = ebind (py_div 600 (dt td)) (\<lambda>q. ebind (py_int q) (\<lambda>n. Inr (n + n mod 2)))
   \<and> calc_nfft (cohere_axForm w ig0 ig1) td
       = ebind (py_div 600 (dt td)) (\<lambda>q. ebind (py_int q) (\<lambda>n. Inr (n + n mod 2)))"
  by (simp add: spec_axForm_def cohere_axForm_def base_axForm_def calc_nfft_def
      get_window_time_def ebind_def)

subsection \<open>The lateral index of the stress profile\<close>

text \<open>
  Claim C10 ends with the conclusion that lateral position 0 cannot be selected
  explicitly. It can: a negative index counts from the end, so on a grid two points wide
  the index \<open>- 2\<close> is not replaced by the hub index and selects position 0, here the
  profile [0, 2], where \<^verbatim>\<open>None\<close> and 0 select the hub's profile [1, 3].
\<close>

theorem stressprof_negative_index_counterexample:
  "stressprof_calc_tsdata (stressprof_axForm []) example_tsdata 0 (Some (- 2))
     = Inr (Arr [0, 2], Arr [10, 20])
   \<and> stressprof_calc_tsdata (stressprof_axForm []) example_tsdata 0 (Some 0)
     = Inr (Arr [1, 3], Arr [10, 20])
   \<and> stressprof_calc_tsdata (stressprof_axForm []) example_tsdata 0 None
     = Inr (Arr [1, 3], Arr [10, 20])
   \<and> stressprof_calc_tsrun (stressprof_axForm []) example_tsrun 0 (Some (- 2))
     = Inr (Arr [0, 2], Arr [10, 20])
   \<and> stressprof_calc_tsrun (stressprof_axForm []) example_tsrun 0 None
     = Inr (Arr [1, 3], Arr [10, 20])"
  by (simp add: stressprof_calc_tsdata_def stressprof_calc_tsrun_def or_index_def arrays_def
      column3_def norm_index_def ebind_def example_tsdata_def example_tsrun_def
      example_arr3_def upt_rec)

text \<open>
  Claim C10, amended. In \<open>stressprof_calc_tsdata\<close> and \<open>stressprof_calc_tsrun\<close> the lateral
  index 0 behaves as \<^verbatim>\<open>None\<close>: for every data object the result for \<open>igrid = 0\<close> equals the
  result for \<open>igrid = None\<close>, and it is the profile at the hub's lateral index. Every
  other index is used as given, so that on a grid \<open>n2\<close> points wide, \<open>n2 > 0\<close>, the index
  \<open>- n2\<close> selects lateral position 0.
\<close>

theorem stressprof_igrid_zero_is_none:
  "stressprof_calc_tsdata self td c (Some 0) = stressprof_calc_tsdata self td c None
   \<and> stressprof_calc_tsrun self tr c (Some 0) = stressprof_calc_tsrun self tr c None
   \<and> stressprof_calc_tsdata self td c (Some 0)
       = ebind (column3 (stress td) c (snd (ihub td))) (\<lambda>x. Inr (Arr x, Arr (z td)))
   \<and> stressprof_calc_tsrun self tr c (Some 0)
       = ebind (column3 (stress_array tr) c (snd (grid_ihub (grid tr))))
           (\<lambda>x. Inr (Arr x, Arr (grid_z (grid tr))))
   \<and> (i \<noteq> 0 \<longrightarrow>
        stressprof_calc_tsdata self td c (Some i)
          = ebind (column3 (stress td) c i) (\<lambda>x. Inr (Arr x, Arr (z td)))
        \<and> stressprof_calc_tsrun self tr c (Some i)
          = ebind (column3 (stress_array tr) c i) (\<lambda>x. Inr (Arr x, Arr (grid_z (grid tr)))))
   \<and> (shape3 (stress td) = (n0, n1, n2) \<and> 0 < n2 \<and> norm_index n0 c = Inr c' \<longrightarrow>
        stressprof_calc_tsdata self td c (Some (- int n2))
          = Inr (Arr (map (\<lambda>j. dat3 (stress td) c' j 0) [0..<n1]), Arr (z td)))
   \<and> (shape3 (stress_array tr) = (m0, m1, m2) \<and> 0 < m2 \<and> norm_index m0 c = Inr c'' \<longrightarrow>
        stressprof_calc_tsrun self tr c (Some (- int m2))
          = Inr (Arr (map (\<lambda>j. dat3 (stress_array tr) c'' j 0) [0..<m1]),
                 Arr (grid_z (grid tr))))"
  by (simp add: stressprof_calc_tsdata_def stressprof_calc_tsrun_def or_index_def arrays_def
      column3_def ebind_def) (simp add: norm_index_def)

theorem stressprof_igrid_zero_is_none_witness:
  "stressprof_calc_tsdata (stressprof_axForm []) example_tsdata 0 (Some 0)
     = stressprof_calc_tsdata (stressprof_axForm []) example_tsdata 0 None
   \<and> stressprof_calc_tsdata (stressprof_axForm []) example_tsdata 0 (Some (- 1))
     = Inr (Arr [1, 3], Arr [10, 20])
   \<and> stressprof_calc_tsdata (stressprof_axForm []) example_tsdata 0 (Some (- 2))
     = Inr (Arr [0, 2], Arr [10, 20])
   \<and> stressprof_calc_tsrun (stressprof_axForm []) example_tsrun 0 (Some (- 2))
     = Inr (Arr [0, 2], Arr [10, 20])"
proof -
  have s: "shape3 (stress example_tsdata) = (3, 2, 2)"
    "shape3 (stress_array example_tsrun) = (3, 2, 2)"
    "z example_tsdata = [10, 20]" "grid_z (grid example_tsrun) = [10, 20]"
    "dat3 (stress example_tsdata) = (\<lambda>c j i. real (4 * c + 2 * j + i))"
    "dat3 (stress_array example_tsrun) = (\<lambda>c j i. real (4 * c + 2 * j + i))"
    by (simp_all add: example_tsdata_def example_tsrun_def example_arr3_def)
  have n: "norm_index 3 0 = Inr 0" by (simp add: norm_index_def)
  have c: "column3 (stress example_tsdata) 0 (- 1) = Inr [1, 3]"
    by (simp add: column3_def s norm_index_def ebind_def upt_rec)
  from stressprof_igrid_zero_is_none [of "stressprof_axForm []" example_tsdata 0 example_tsrun
      "- 1" 3 2 2 0 3 2 2 0] s n c
  show ?thesis by (simp add: ebind_def upt_rec)
qed

subsection \<open>The length of the FFT window\<close>













subsection \<open>Saving the summary figure\<close>

text \<open>
  Claim C7. \<open>savefig\<close> calls the figure's own \<^verbatim>\<open>savefig\<close> with the positional
  arguments unchanged and with keyword arguments in which \<^verbatim>\<open>dpi\<close> is the caller's
  value when one is given and 300 otherwise; every other keyword is as the caller
  gave it.
\<close>

theorem savefig_dpi_default:
  "savefig fig_savefig args kwargs
     = fig_savefig args
         (kwargs(''dpi'' \<mapsto> (case kwargs ''dpi'' of None \<Rightarrow> ArgInt 300 | Some d \<Rightarrow> d)))
   \<and> (\<forall>k. k \<noteq> ''dpi'' \<longrightarrow>
        (kwargs(''dpi'' \<mapsto> (case kwargs ''dpi'' of None \<Rightarrow> ArgInt 300 | Some d \<Rightarrow> d))) k
          = kwargs k)"
  by (auto simp add: savefig_def setdefault_def map_upd_triv split: option.splits)

theorem savefig_dpi_default_witness:
  "savefig (\<lambda>a k. (a, k ''dpi'', k ''format'')) [ArgStr ''fig.png'']
       [''format'' \<mapsto> ArgStr ''png'']
     = ([ArgStr ''fig.png''], Some (ArgInt 300), Some (ArgStr ''png''))
   \<and> savefig (\<lambda>a k. (a, k ''dpi'', k ''format'')) [ArgStr ''fig.png'']
       [''dpi'' \<mapsto> ArgInt 72]
     = ([ArgStr ''fig.png''], Some (ArgInt 72), None)"
  using
    savefig_dpi_default [of "\<lambda>a k. (a, k ''dpi'', k ''format'')" "[ArgStr ''fig.png'']"
      "[''format'' \<mapsto> ArgStr ''png'']"]
    savefig_dpi_default [of "\<lambda>a k. (a, k ''dpi'', k ''format'')" "[ArgStr ''fig.png'']"
      "[''dpi'' \<mapsto> ArgInt 72]"]
  by simp

subsection \<open>The order of the arguments in showts\<close>

lemma setinds_cases:
  "setinds self tsd ig ic =
     (case ig of
        PyNone \<Rightarrow>
          (case tsd of
             PyData td \<Rightarrow>
               Inr (self\<lparr>sf_igrid := Some (PyPoint (ihub td)),
                      sf_icoh := Some (case ic of PyNone \<Rightarrow> PyPoint (0, 0) | _ \<Rightarrow> ic)\<rparr>)
           | _ \<Rightarrow> Inl (AttributeError ''ihub''))
      | _ \<Rightarrow>
          Inr (self\<lparr>sf_igrid := Some ig,
                 sf_icoh := Some (case ic of PyNone \<Rightarrow> PyPoint (0, 0) | _ \<Rightarrow> ic)\<rparr>))"
  by (simp add: setinds_def getattr_ihub_def set_igrid_def set_icoh_def ebind_def
      split: pyval.splits)

text \<open>
  \<open>showts\<close> passes (igrid, icoh, tsdata) to the parameters (tsdata, igrid, icoh) of
  \<open>setinds\<close>. When \<open>igrid\<close> is \<^verbatim>\<open>None\<close> or a grid point, \<open>setinds\<close> fails with the
  attribute error on \<^verbatim>\<open>ihub\<close> exactly when \<open>icoh\<close> is \<^verbatim>\<open>None\<close>; otherwise \<open>showts\<close>
  goes on to \<open>plot_prof\<close> with \<open>icoh\<close> stored as the grid point.
\<close>

lemma showts_setinds_binding:
  assumes "ig = PyNone \<or> (\<exists>g. ig = PyPoint g)"
  shows "(setinds (summfig_init 1024) ig ic (PyData td) = Inl (AttributeError ''ihub'')
            \<longleftrightarrow> ic = PyNone)
       \<and> (ic = PyNone \<longrightarrow> showts td (Inr n) nfft ig ic = Inl (AttributeError ''ihub''))
       \<and> (ic \<noteq> PyNone \<longrightarrow>
            setinds (summfig_init 1024) ig ic (PyData td)
              = Inr ((summfig_init 1024)\<lparr>sf_igrid := Some ic, sf_icoh := Some (PyData td)\<rparr>)
            \<and> showts td (Inr n) nfft ig ic
              = plot_prof
                  ((summfig_init 1024)\<lparr>sf_igrid := Some ic, sf_icoh := Some (PyData td)\<rparr>) td)"
  using assms
  by (auto simp add: setinds_cases showts_def ebind_def split: pyval.splits)

text \<open>
  Claim C9 says that \<open>showts\<close> with a figure number fails inside \<open>setinds\<close> whenever
  \<open>igrid\<close> is left as \<^verbatim>\<open>None\<close>. It fails so when \<open>icoh\<close> is left as \<^verbatim>\<open>None\<close> too. With
  \<open>igrid = None\<close> and \<open>icoh = (0, 0)\<close> the call returns: \<open>setinds\<close> never reads
  \<^verbatim>\<open>ihub\<close>, the figure holds \<open>icoh\<close> as its grid point and the data object as \<^verbatim>\<open>_icoh\<close>,
  and the three profiles are plotted at lateral index 0 instead of the hub's index 1.
\<close>

theorem showts_igrid_none_returns:
  "showts example_tsdata (Inr 2001) 1024 PyNone (PyPoint (0, 0))
     = Inr (\<lparr>sf_nfft = 1024, sf_igrid = Some (PyPoint (0, 0)),
             sf_icoh = Some (PyData example_tsdata)\<rparr>,
            [Plot (0, 0) (Arr [0, 2]) (Arr [10, 20]),
             Plot (1, 0) (Arr [4, 6]) (Arr [10, 20]),
             Plot (2, 0) (Arr [8, 10]) (Arr [10, 20])])
   \<and> showts example_tsdata (Inr 2001) 1024 PyNone PyNone = Inl (AttributeError ''ihub'')
   \<and> ihub example_tsdata = (1, 1)"
  by (simp add: showts_def setinds_cases summfig_init_def plot_prof_def get_igrid_def
      as_point_def ebind_def column3_def norm_index_def example_tsdata_def example_arr3_def
      ax_prof_def upt_rec)

subsection \<open>The zero-frequency bin\<close>

lemma direct_psd_library:
  assumes "direct_psd L td nfft ind g = Inr (p, f)"
  shows "\<exists>u sr. series4 (uturb td) (int ind) g = Inr u
           \<and> py_div 1 (dt td) = Inr sr
           \<and> mlab_psd L u nfft sr (nfft div 2) = Some (p, f)"
  using assms
  by (auto simp add: direct_psd_def ebind_Inr_iff lib_result_Inr_iff)

lemma direct_cohere_library:
  assumes "direct_cohere L td nfft ind g gc = Inr (p, f)"
  shows "\<exists>u1 u2 sr. series4 (uturb td) (int ind) g = Inr u1
           \<and> series4 (uturb td) (int ind) gc = Inr u2
           \<and> py_div 1 (dt td) = Inr sr
           \<and> mlab_cohere L u1 u2 nfft sr (nfft div 2) = Some (p, f)"
  using assms
  by (auto simp add: direct_cohere_def ebind_Inr_iff lib_result_Inr_iff)

lemma plot_spectra_loop_events:
  assumes "plot_spectra_loop L td nfft g inds = Inr evs" and "ind \<in> set inds"
  shows "\<exists>p f. direct_psd L td nfft ind g = Inr (p, f) \<and> Loglog (ind, 0) f p \<in> set evs"
  using assms
proof (induction inds arbitrary: evs)
  case Nil
  then show ?case by simp
next
  case (Cons i inds)
  from Cons.prems(1) obtain p f th evs' where
    d: "direct_psd L td nfft i g = Inr (p, f)" and
    r: "plot_spectra_loop L td nfft g inds = Inr evs'" and
    e: "evs = Loglog (i, 0) f p # th @ evs'"
    by (auto simp add: ebind_Inr_iff)
  show ?case
  proof (cases "ind = i")
    case True
    with d e show ?thesis by auto
  next
    case False
    with Cons.prems(2) have "ind \<in> set inds" by simp
    from Cons.IH [OF r this] e show ?thesis by auto
  qed
qed

lemma plot_spec_loop_events:
  assumes "plot_spec_loop L nfft td thl g inds = Inr evs" and "ind \<in> set inds"
  shows "\<exists>p f. direct_psd L td nfft ind g = Inr (p, f) \<and> Loglog (ax_spec ind) f p \<in> set evs"
  using assms
proof (induction inds arbitrary: evs)
  case Nil
  then show ?case by simp
next
  case (Cons i inds)
  from Cons.prems(1) obtain p f th evs' where
    d: "direct_psd L td nfft i g = Inr (p, f)" and
    r: "plot_spec_loop L nfft td thl g inds = Inr evs'" and
    e: "evs = Loglog (ax_spec i) f p # th @ evs'"
    by (auto simp add: ebind_Inr_iff)
  show ?case
  proof (cases "ind = i")
    case True
    with d e show ?thesis by auto
  next
    case False
    with Cons.prems(2) have "ind \<in> set inds" by simp
    from Cons.IH [OF r this] e show ?thesis by auto
  qed
qed

lemma plot_coh_loop_events:
  assumes "plot_coh_loop L nfft td g gc inds = Inr evs" and "ind \<in> set inds"
  shows "\<exists>p f. direct_cohere L td nfft ind g gc = Inr (p, f)
           \<and> Semilogx (ax_cohr ind) f p \<in> set evs"
  using assms
proof (induction inds arbitrary: evs)
  case Nil
  then show ?case by simp
next
  case (Cons i inds)
  from Cons.prems(1) obtain p f evs' where
    d: "direct_cohere L td nfft i g gc = Inr (p, f)" and
    r: "plot_coh_loop L nfft td g gc inds = Inr evs'" and
    e: "evs = Semilogx (ax_cohr i) f p # evs'"
    by (auto simp add: ebind_Inr_iff)
  show ?case
  proof (cases "ind = i")
    case True
    with d e show ?thesis by auto
  next
    case False
    with Cons.prems(2) have "ind \<in> set inds" by simp
    from Cons.IH [OF r this] e show ?thesis by auto
  qed
qed

lemma index_below_three: "ind < 3 \<Longrightarrow> ind \<in> set [0, 1, 2::nat]"
  by auto

text \<open>
  Claim C2 says that every spectral and coherence computation drops the
  zero-frequency bin, the plotting paths that call the library directly included. On
  the example data \<open>plot_spectra\<close>, \<open>plot_spec\<close> and \<open>plot_coh\<close> draw the three bins the
  library returns, the bin at frequency 0 among them, while \<open>psd\<close> and \<open>coh\<close> return
  the last two.
\<close>

theorem direct_paths_keep_zero_bin_counterexample:
  "plot_spectra example_mlab example_tsdata 1024 None
     = Inr [Loglog (0, 0) [0, 1, 2] [9, 8, 7],
            Loglog (1, 0) [0, 1, 2] [9, 8, 7],
            Loglog (2, 0) [0, 1, 2] [9, 8, 7]]
   \<and> plot_spec example_mlab (summfig_init 1024) example_tsdata False
     = Inr ((summfig_init 1024)\<lparr>sf_igrid := Some (PyPoint (0, 0))\<rparr>,
            [Loglog (0, 1) [0, 1, 2] [9, 8, 7],
             Loglog (1, 1) [0, 1, 2] [9, 8, 7],
             Loglog (2, 1) [0, 1, 2] [9, 8, 7]])
   \<and> plot_coh example_mlab (summfig_init 1024) example_tsdata
     = Inr ((summfig_init 1024)\<lparr>sf_igrid := Some (PyPoint (0, 0)),
               sf_icoh := Some (PyPoint (- 1, - 1))\<rparr>,
            [Semilogx (0, 2) [0, 1, 2] [1, 1 / 2, 1 / 4],
             Semilogx (1, 2) [0, 1, 2] [1, 1 / 2, 1 / 4],
             Semilogx (2, 2) [0, 1, 2] [1, 1 / 2, 1 / 4]])
   \<and> psd example_mlab [1, 2, 3, 4] (Finite 16) 1024 = Inr ([1, 2], [8, 7])
   \<and> coh example_mlab [1, 2, 3, 4] [4, 3, 2, 1] (Finite 16) 1024 = Inr ([1, 2], [1 / 2, 1 / 4])"
  by (simp add: plot_spectra_def plot_spec_def plot_coh_def direct_psd_def direct_cohere_def
      psd_def coh_def lib_result_def ebind_def py_div_def get_igrid_def get_icoh_def
      as_point_def summfig_init_def ax_spec_def ax_cohr_def
      series4_def norm_index_def example_mlab_def example_tsdata_def example_arr4_def
      example_dt_def)

text \<open>
  Claim C2, amended. The helpers \<open>psd\<close> and \<open>coh\<close> return the library's frequencies
  and values without their first entry (frequencies first). The paths that call the
  library directly do not: whenever \<open>plot_spectra\<close>, \<open>plot_spec\<close> or \<open>plot_coh\<close>
  returns, each of the three rows holds a line drawn from the very pair of arrays the
  library returned for that component, index 0 included.
\<close>

theorem zero_bin_dropped_by_helpers_only:
  "psd L u sr nfft
     = (case mlab_psd L u nfft sr (nfft div 2) of
          None \<Rightarrow> Inl LibraryError
        | Some (p, f) \<Rightarrow> Inr (drop 1 f, drop 1 p))
   \<and> coh L u1 u2 sr nfft
     = (case mlab_cohere L u1 u2 nfft sr (nfft div 2) of
          None \<Rightarrow> Inl LibraryError
        | Some (p, f) \<Rightarrow> Inr (drop 1 f, drop 1 p))
   \<and> (plot_spectra L td nfft ig = Inr evs \<and> ind < 3 \<longrightarrow>
        (\<exists>u sr p f.
           series4 (uturb td) (int ind) (case ig of None \<Rightarrow> ihub td | Some g \<Rightarrow> g) = Inr u
           \<and> py_div 1 (dt td) = Inr sr
           \<and> mlab_psd L u nfft sr (nfft div 2) = Some (p, f)
           \<and> Loglog (ind, 0) f p \<in> set evs))
   \<and> (plot_spec L self td theory_line = Inr (self', evs) \<and> ind < 3 \<longrightarrow>
        (\<exists>g u sr p f. as_point (snd (get_igrid self)) = Inr g
           \<and> series4 (uturb td) (int ind) g = Inr u
           \<and> py_div 1 (dt td) = Inr sr
           \<and> mlab_psd L u (sf_nfft self) sr (sf_nfft self div 2) = Some (p, f)
           \<and> Loglog (ax_spec ind) f p \<in> set evs))
   \<and> (plot_coh L self td = Inr (self', evs) \<and> ind < 3 \<longrightarrow>
        (\<exists>g gc u1 u2 sr p f. as_point (snd (get_igrid self)) = Inr g
           \<and> as_point (snd (get_icoh self)) = Inr gc
           \<and> series4 (uturb td) (int ind) g = Inr u1
           \<and> series4 (uturb td) (int ind) gc = Inr u2
           \<and> py_div 1 (dt td) = Inr sr
           \<and> mlab_cohere L u1 u2 (sf_nfft self) sr (sf_nfft self div 2) = Some (p, f)
           \<and> Semilogx (ax_cohr ind) f p \<in> set evs))"
proof (intro conjI impI)
  show "psd L u sr nfft
     = (case mlab_psd L u nfft sr (nfft div 2) of
          None \<Rightarrow> Inl LibraryError
        | Some (p, f) \<Rightarrow> Inr (drop 1 f, drop 1 p))"
    by (simp add: psd_def lib_result_def ebind_def split: option.splits)
  show "coh L u1 u2 sr nfft
     = (case mlab_cohere L u1 u2 nfft sr (nfft div 2) of
          None \<Rightarrow> Inl LibraryError
        | Some (p, f) \<Rightarrow> Inr (drop 1 f, drop 1 p))"
    by (simp add: coh_def lib_result_def ebind_def split: option.splits)
next
  assume a: "plot_spectra L td nfft ig = Inr evs \<and> ind < 3"
  define g where "g = (case ig of None \<Rightarrow> ihub td | Some g \<Rightarrow> g)"
  from a have "plot_spectra_loop L td nfft g [0, 1, 2] = Inr evs"
    by (simp add: plot_spectra_def g_def del: plot_spectra_loop.simps)
  from plot_spectra_loop_events [OF this index_below_three] a
  obtain p f where "direct_psd L td nfft ind g = Inr (p, f)" "Loglog (ind, 0) f p \<in> set evs"
    by blast
  with direct_psd_library [of L td nfft ind g p f]
  show "\<exists>u sr p f.
           series4 (uturb td) (int ind) (case ig of None \<Rightarrow> ihub td | Some g \<Rightarrow> g) = Inr u
           \<and> py_div 1 (dt td) = Inr sr
           \<and> mlab_psd L u nfft sr (nfft div 2) = Some (p, f)
           \<and> Loglog (ind, 0) f p \<in> set evs"
    unfolding g_def by blast
next
  assume a: "plot_spec L self td theory_line = Inr (self', evs) \<and> ind < 3"
  obtain self1 v where gi: "get_igrid self = (self1, v)" by (cases "get_igrid self")
  have n: "sf_nfft self1 = sf_nfft self"
    using gi by (auto simp add: get_igrid_def split: option.splits)
  from a gi obtain g where g: "as_point v = Inr g"
    and l: "plot_spec_loop L (sf_nfft self) td theory_line g [0, 1, 2] = Inr evs"
    by (auto simp add: plot_spec_def ebind_Inr_iff n simp del: plot_spec_loop.simps)
  from plot_spec_loop_events [OF l index_below_three] a
  obtain p f where "direct_psd L td (sf_nfft self) ind g = Inr (p, f)"
    "Loglog (ax_spec ind) f p \<in> set evs"
    by blast
  with direct_psd_library [of L td "sf_nfft self" ind g p f] g gi
  show "\<exists>g u sr p f. as_point (snd (get_igrid self)) = Inr g
           \<and> series4 (uturb td) (int ind) g = Inr u
           \<and> py_div 1 (dt td) = Inr sr
           \<and> mlab_psd L u (sf_nfft self) sr (sf_nfft self div 2) = Some (p, f)
           \<and> Loglog (ax_spec ind) f p \<in> set evs"
    by auto
next
  assume a: "plot_coh L self td = Inr (self', evs) \<and> ind < 3"
  obtain self1 v where gi: "get_igrid self = (self1, v)" by (cases "get_igrid self")
  obtain self2 w where gc: "get_icoh self1 = (self2, w)" by (cases "get_icoh self1")
  have n: "sf_nfft self2 = sf_nfft self"
    using gi gc by (auto simp add: get_igrid_def get_icoh_def split: option.splits)
  have w: "snd (get_icoh self) = w"
    using gi gc by (auto simp add: get_igrid_def get_icoh_def split: option.splits)
  from a gi gc obtain g c where g: "as_point v = Inr g" and c: "as_point w = Inr c"
    and l: "plot_coh_loop L (sf_nfft self) td g c [0, 1, 2] = Inr evs"
    by (auto simp add: plot_coh_def ebind_Inr_iff n simp del: plot_coh_loop.simps)
  from plot_coh_loop_events [OF l index_below_three] a
  obtain p f where "direct_cohere L td (sf_nfft self) ind g c = Inr (p, f)"
    "Semilogx (ax_cohr ind) f p \<in> set evs"
    by blast
  with direct_cohere_library [of L td "sf_nfft self" ind g c p f] g c gi w
  show "\<exists>g gc u1 u2 sr p f. as_point (snd (get_igrid self)) = Inr g
           \<and> as_point (snd (get_icoh self)) = Inr gc
           \<and> series4 (uturb td) (int ind) g = Inr u1
           \<and> series4 (uturb td) (int ind) gc = Inr u2
           \<and> py_div 1 (dt td) = Inr sr
           \<and> mlab_cohere L u1 u2 (sf_nfft self) sr (sf_nfft self div 2) = Some (p, f)
           \<and> Semilogx (ax_cohr ind) f p \<in> set evs"
    by auto
qed

theorem zero_bin_dropped_by_helpers_only_witness:
  "(\<exists>u sr p f. series4 (uturb example_tsdata) 0 (ihub example_tsdata) = Inr u
       \<and> py_div 1 (dt example_tsdata) = Inr sr
       \<and> mlab_psd example_mlab u 1024 sr 512 = Some (p, f)
       \<and> Loglog (0, 0) f p = Loglog (0, 0) [0, 1, 2] [9, 8, 7])
   \<and> (\<exists>u sr p f. series4 (uturb example_tsdata) 1 (0, 0) = Inr u
       \<and> py_div 1 (dt example_tsdata) = Inr sr
       \<and> mlab_psd example_mlab u 1024 sr 512 = Some (p, f)
       \<and> Loglog (1, 1) f p = Loglog (1, 1) [0, 1, 2] [9, 8, 7])
   \<and> (\<exists>u1 u2 sr p f. series4 (uturb example_tsdata) 2 (0, 0) = Inr u1
       \<and> series4 (uturb example_tsdata) 2 (- 1, - 1) = Inr u2
       \<and> py_div 1 (dt example_tsdata) = Inr sr
       \<and> mlab_cohere example_mlab u1 u2 1024 sr 512 = Some (p, f)
       \<and> Semilogx (2, 2) f p = Semilogx (2, 2) [0, 1, 2] [1, 1 / 2, 1 / 4])"
proof -
  have a: "plot_spectra example_mlab example_tsdata 1024 None
     = Inr [Loglog (0, 0) [0, 1, 2] [9, 8, 7],
            Loglog (1, 0) [0, 1, 2] [9, 8, 7],
            Loglog (2, 0) [0, 1, 2] [9, 8, 7]]"
    by (simp add: plot_spectra_def direct_psd_def lib_result_def ebind_def py_div_def
      series4_def norm_index_def example_mlab_def example_tsdata_def example_arr4_def
      example_dt_def)
  have b: "plot_spec example_mlab (summfig_init 1024) example_tsdata False
     = Inr ((summfig_init 1024)\<lparr>sf_igrid := Some (PyPoint (0, 0))\<rparr>,
            [Loglog (0, 1) [0, 1, 2] [9, 8, 7],
             Loglog (1, 1) [0, 1, 2] [9, 8, 7],
             Loglog (2, 1) [0, 1, 2] [9, 8, 7]])"
    by (simp add: plot_spec_def direct_psd_def lib_result_def ebind_def py_div_def
      get_igrid_def as_point_def summfig_init_def ax_spec_def
      series4_def norm_index_def example_mlab_def example_tsdata_def example_arr4_def
      example_dt_def)
  have c: "plot_coh example_mlab (summfig_init 1024) example_tsdata
     = Inr ((summfig_init 1024)\<lparr>sf_igrid := Some (PyPoint (0, 0)),
               sf_icoh := Some (PyPoint (- 1, - 1))\<rparr>,
            [Semilogx (0, 2) [0, 1, 2] [1, 1 / 2, 1 / 4],
             Semilogx (1, 2) [0, 1, 2] [1, 1 / 2, 1 / 4],
             Semilogx (2, 2) [0, 1, 2] [1, 1 / 2, 1 / 4]])"
    by (simp add: plot_coh_def direct_cohere_def lib_result_def ebind_def py_div_def
      get_igrid_def get_icoh_def as_point_def summfig_init_def ax_cohr_def
      series4_def norm_index_def example_mlab_def example_tsdata_def example_arr4_def
      example_dt_def)
  have g: "snd (get_igrid (summfig_init 1024)) = PyPoint (0, 0)"
    "snd (get_icoh (summfig_init 1024)) = PyPoint (- 1, - 1)"
    "sf_nfft (summfig_init 1024) = 1024"
    by (simp_all add: get_igrid_def get_icoh_def summfig_init_def)
  note t = zero_bin_dropped_by_helpers_only [where L = example_mlab and td = example_tsdata and nfft = 1024
      and ig = None and self = "summfig_init 1024" and theory_line = False]
  from t [where ind = 0 and evs = "[Loglog (0, 0) [0, 1, 2] [9, 8, 7],
            Loglog (1, 0) [0, 1, 2] [9, 8, 7], Loglog (2, 0) [0, 1, 2] [9, 8, 7]]"] a
  have 1: "\<exists>u sr p f. series4 (uturb example_tsdata) 0 (ihub example_tsdata) = Inr u
       \<and> py_div 1 (dt example_tsdata) = Inr sr
       \<and> mlab_psd example_mlab u 1024 sr 512 = Some (p, f)
       \<and> Loglog (0, 0) f p = Loglog (0, 0) [0, 1, 2] [9, 8, 7]"
    by simp
  from t [where ind = 1 and evs = "[Loglog (0, 1) [0, 1, 2] [9, 8, 7],
             Loglog (1, 1) [0, 1, 2] [9, 8, 7], Loglog (2, 1) [0, 1, 2] [9, 8, 7]]"
      and self' = "(summfig_init 1024)\<lparr>sf_igrid := Some (PyPoint (0, 0))\<rparr>"] b
  have 2: "\<exists>u sr p f. series4 (uturb example_tsdata) 1 (0, 0) = Inr u
       \<and> py_div 1 (dt example_tsdata) = Inr sr
       \<and> mlab_psd example_mlab u 1024 sr 512 = Some (p, f)
       \<and> Loglog (1, 1) f p = Loglog (1, 1) [0, 1, 2] [9, 8, 7]"
    by (simp add: g as_point_def ax_spec_def)
  from t [where ind = 2 and evs = "[Semilogx (0, 2) [0, 1, 2] [1, 1 / 2, 1 / 4],
             Semilogx (1, 2) [0, 1, 2] [1, 1 / 2, 1 / 4],
             Semilogx (2, 2) [0, 1, 2] [1, 1 / 2, 1 / 4]]"
      and self' = "(summfig_init 1024)\<lparr>sf_igrid := Some (PyPoint (0, 0)),
               sf_icoh := Some (PyPoint (- 1, - 1))\<rparr>"] c
  have 3: "\<exists>u1 u2 sr p f. series4 (uturb example_tsdata) 2 (0, 0) = Inr u1
       \<and> series4 (uturb example_tsdata) 2 (- 1, - 1) = Inr u2
       \<and> py_div 1 (dt example_tsdata) = Inr sr
       \<and> mlab_cohere example_mlab u1 u2 1024 sr 512 = Some (p, f)
       \<and> Semilogx (2, 2) f p = Semilogx (2, 2) [0, 1, 2] [1, 1 / 2, 1 / 4]"
    by (simp add: g as_point_def ax_cohr_def)
  from 1 2 3 show ?thesis by blast
qed

subsection \<open>The exception for an unrecognized object\<close>

lemma norm_index_error: "norm_index n i = Inl e \<Longrightarrow> e = IndexError"
  by (simp add: norm_index_def Let_def split: if_splits)

lemma column3_error: "column3 a c i = Inl e \<Longrightarrow> e = IndexError"
  by (auto simp add: column3_def ebind_Inl_iff split: prod.splits dest: norm_index_error)

lemma series4_error: "series4 a c g = Inl e \<Longrightarrow> e = IndexError"
  by (auto simp add: series4_def ebind_Inl_iff split: prod.splits dest: norm_index_error)

lemma py_div_error: "py_div a b = Inl e \<Longrightarrow> e = ZeroDivisionError"
  by (simp add: py_div_def split: if_splits)

lemma psd_error: "psd L u sr nfft = Inl e \<Longrightarrow> e = LibraryError"
  by (auto simp add: psd_def lib_result_def ebind_Inl_iff split: option.splits)

lemma coh_error: "coh L u1 u2 sr nfft = Inl e \<Longrightarrow> e = LibraryError"
  by (auto simp add: coh_def lib_result_def ebind_Inl_iff split: option.splits)

lemma py_int_error: "py_int x = Inl e \<Longrightarrow> e = OverflowError"
  by (simp add: py_int_def split: pyfloat.splits)

lemma calc_nfft_error:
  "calc_nfft self td = Inl e
     \<Longrightarrow> e = AttributeError ''window_time'' \<or> e = ZeroDivisionError \<or> e = OverflowError"
  by (auto simp add: calc_nfft_def get_window_time_def ebind_Inl_iff Let_def
      split: option.splits dest: py_div_error py_int_error)

lemma arrays_not_error: "arrays xy \<noteq> Inl e"
  by (simp add: arrays_def)

lemma calc_tsdata_not_unrecognized:
  assumes "calc_tsdata_of L self = Some m"
  shows "m td c \<noteq> Inl (Unrecognized a b)"
proof
  assume u: "m td c = Inl (Unrecognized a b)"
  show False
  proof (cases "fclass self")
    case Base_axForm
    with assms show ?thesis by (simp add: calc_tsdata_of_def)
  next
    case Prof_axForm
    with assms show ?thesis by (simp add: calc_tsdata_of_def)
  next
    case Velprof_axForm
    with assms u show ?thesis
      by (auto simp add: calc_tsdata_of_def velprof_calc_tsdata_def ebind_Inl_iff
          arrays_not_error dest: column3_error)
  next
    case Tkeprof_axForm
    with assms u show ?thesis
      by (auto simp add: calc_tsdata_of_def tkeprof_calc_tsdata_def ebind_Inl_iff
          arrays_not_error dest: column3_error)
  next
    case Stressprof_axForm
    with assms u show ?thesis
      by (auto simp add: calc_tsdata_of_def stressprof_calc_tsdata_def ebind_Inl_iff
          arrays_not_error Let_def dest: column3_error)
  next
    case Spec_axForm
    with assms u show ?thesis
      by (auto simp add: calc_tsdata_of_def spec_calc_tsdata_def ebind_Inl_iff
          arrays_not_error Let_def
          dest: series4_error calc_nfft_error py_div_error psd_error)
  next
    case Cohere_axForm
    with assms u show ?thesis
      by (auto simp add: calc_tsdata_of_def cohere_calc_tsdata_def ebind_Inl_iff
          arrays_not_error Let_def
          dest: series4_error calc_nfft_error py_div_error coh_error)
  qed
qed

lemma calc_tsrun_not_unrecognized:
  assumes "calc_tsrun_of self = Some m"
  shows "m tr c \<noteq> Inl (Unrecognized a b)"
proof
  assume u: "m tr c = Inl (Unrecognized a b)"
  show False
  proof (cases "fclass self")
    case Base_axForm
    with assms show ?thesis by (simp add: calc_tsrun_of_def)
  next
    case Prof_axForm
    with assms show ?thesis by (simp add: calc_tsrun_of_def)
  next
    case Velprof_axForm
    with assms u show ?thesis
      by (auto simp add: calc_tsrun_of_def velprof_calc_tsrun_def ebind_Inl_iff
          arrays_not_error dest: column3_error)
  next
    case Tkeprof_axForm
    with assms u show ?thesis
      by (auto simp add: calc_tsrun_of_def tkeprof_calc_tsrun_def ebind_Inl_iff
          arrays_not_error dest: column3_error)
  next
    case Stressprof_axForm
    with assms u show ?thesis
      by (auto simp add: calc_tsrun_of_def stressprof_calc_tsrun_def ebind_Inl_iff
          arrays_not_error Let_def dest: column3_error)
  next
    case Spec_axForm
    with assms u show ?thesis
      by (auto simp add: calc_tsrun_of_def spec_calc_tsrun_def ebind_Inl_iff
          arrays_not_error Let_def dest: series4_error)
  next
    case Cohere_axForm
    with assms u show ?thesis
      by (auto simp add: calc_tsrun_of_def cohere_calc_tsrun_def
          arrays_not_error Let_def)
  qed
qed

lemma getattr_method_not_unrecognized:
  assumes "getattr_method L self meth = Some m"
  shows "m obj c \<noteq> Inl (Unrecognized a b)"
  using assms calc_tsdata_not_unrecognized calc_tsrun_not_unrecognized
  by (auto simp add: getattr_method_def split: if_splits)

lemma calc_loop_no_class:
  assumes "\<forall>cls \<in> fst ` set items. cls \<notin> set (mro obj)"
  shows "calc_loop L self obj c items = Inl (Unrecognized (obj_class obj) (fclass self))"
  using assms by (induction items) auto

lemma calc_loop_some_class:
  assumes "\<exists>cls \<in> fst ` set items. cls \<in> set (mro obj)"
  shows "calc_loop L self obj c items \<noteq> Inl (Unrecognized a b)"
  using assms
proof (induction items)
  case Nil
  then show ?case by simp
next
  case (Cons it items)
  obtain cls meth where it: "it = (cls, meth)" by (cases it)
  show ?case
  proof (cases "cls \<in> set (mro obj)")
    case True
    then show ?thesis
      using it getattr_method_not_unrecognized [of L self meth]
      by (auto split: option.splits)
  next
    case False
    with Cons.prems it have "\<exists>cls \<in> fst ` set items. cls \<in> set (mro obj)" by auto
    from Cons.IH [OF this] False it show ?thesis by simp
  qed
qed

lemma fst_method_map: "fst ` set method_map = {Cls_tsdata, Cls_tsrun}"
  by (simp add: method_map_def)

text \<open>
  Claim C3 says that \<open>calc\<close> raises the exception naming the object's type exactly
  when no class of \<open>method_map\<close> is in the object's class hierarchy. For the component
  \<^verbatim>\<open>'x'\<close> and an object of an unsupported class the exception is the key error of
  \<^verbatim>\<open>indx[comp]\<close>, raised before the classes are looked at.
\<close>

theorem calc_bad_component_counterexample:
  "calc example_mlab (velprof_axForm [Some 0, Some 2]) example_other_obj (CStr ''x'')
     = Inl (KeyError (CStr ''x''))
   \<and> Cls_tsdata \<notin> set (mro example_other_obj)
   \<and> Cls_tsrun \<notin> set (mro example_other_obj)"
  by (simp add: calc_def calc_items_def component_index_def indx_def ebind_def mro_def
      example_other_obj_def)

text \<open>
  Claim C3, amended. A component is an index when it is an integer or one of \<^verbatim>\<open>'u'\<close>,
  \<^verbatim>\<open>'v'\<close>, \<^verbatim>\<open>'w'\<close>, which stand for 0, 1, 2. For such a component, and whatever the order
  in which the items of \<open>method_map\<close> are visited, \<open>calc\<close> raises the exception that
  carries the object's class exactly when neither \<^verbatim>\<open>tsdata\<close> nor \<^verbatim>\<open>tsrun\<close> is in the
  object's class hierarchy; when one of them is, no such exception comes out of the call,
  neither from the dispatch nor from the method it selects. For every other string, and
  whatever the format and the object, \<open>calc\<close> raises the key error of \<^verbatim>\<open>indx[comp]\<close>.
\<close>

theorem calc_unrecognized_iff:
  assumes "set items = set method_map"
  shows "(component_index cmp = Inr c \<longrightarrow>
            (calc_items L items self obj cmp = Inl (Unrecognized (obj_class obj) (fclass self))
               \<longleftrightarrow> Cls_tsdata \<notin> set (mro obj) \<and> Cls_tsrun \<notin> set (mro obj))
          \<and> (Cls_tsdata \<in> set (mro obj) \<or> Cls_tsrun \<in> set (mro obj) \<longrightarrow>
               (\<forall>a b. calc_items L items self obj cmp \<noteq> Inl (Unrecognized a b))))
       \<and> calc L self obj cmp = calc_items L method_map self obj cmp
       \<and> (component_index cmp = Inr c \<longleftrightarrow>
            cmp = CInt c \<or> cmp = CStr ''u'' \<and> c = 0 \<or> cmp = CStr ''v'' \<and> c = 1
            \<or> cmp = CStr ''w'' \<and> c = 2)
       \<and> (s \<noteq> ''u'' \<and> s \<noteq> ''v'' \<and> s \<noteq> ''w'' \<longrightarrow>
            calc_items L items self obj (CStr s) = Inl (KeyError (CStr s))
            \<and> calc L self obj (CStr s) = Inl (KeyError (CStr s)))"
proof -
  have f: "fst ` set items = {Cls_tsdata, Cls_tsrun}"
    using assms fst_method_map by simp
  have e: "calc_items L items self obj cmp = calc_loop L self obj c items"
    if "component_index cmp = Inr c"
    using that by (simp add: calc_items_def ebind_def)
  have n: "calc_loop L self obj c items = Inl (Unrecognized (obj_class obj) (fclass self))"
    if "Cls_tsdata \<notin> set (mro obj)" "Cls_tsrun \<notin> set (mro obj)"
    using that f by (intro calc_loop_no_class) simp
  have u: "calc_loop L self obj c items \<noteq> Inl (Unrecognized a b)"
    if "Cls_tsdata \<in> set (mro obj) \<or> Cls_tsrun \<in> set (mro obj)" for a b
    using that f by (intro calc_loop_some_class) auto
  have 1: "component_index cmp = Inr c \<longrightarrow>
            (calc_items L items self obj cmp = Inl (Unrecognized (obj_class obj) (fclass self))
               \<longleftrightarrow> Cls_tsdata \<notin> set (mro obj) \<and> Cls_tsrun \<notin> set (mro obj))
          \<and> (Cls_tsdata \<in> set (mro obj) \<or> Cls_tsrun \<in> set (mro obj) \<longrightarrow>
               (\<forall>a b. calc_items L items self obj cmp \<noteq> Inl (Unrecognized a b)))"
    using n u by (auto simp add: e)
  have 2: "calc L self obj cmp = calc_items L method_map self obj cmp"
    by (simp add: calc_def)
  have 3: "component_index cmp = Inr c \<longleftrightarrow>
            cmp = CInt c \<or> cmp = CStr ''u'' \<and> c = 0 \<or> cmp = CStr ''v'' \<and> c = 1
            \<or> cmp = CStr ''w'' \<and> c = 2"
    by (cases cmp) (auto simp add: component_index_def indx_def split: if_splits)
  have k: "component_index (CStr s) = Inl (KeyError (CStr s))"
    if "s \<noteq> ''u'' \<and> s \<noteq> ''v'' \<and> s \<noteq> ''w''"
    using that by (simp add: component_index_def indx_def)
  have 4: "s \<noteq> ''u'' \<and> s \<noteq> ''v'' \<and> s \<noteq> ''w'' \<longrightarrow>
            calc_items L items self obj (CStr s) = Inl (KeyError (CStr s))
            \<and> calc L self obj (CStr s) = Inl (KeyError (CStr s))"
    using k by (simp add: calc_def calc_items_def ebind_def)
  from 1 2 3 4 show ?thesis by blast
qed

theorem calc_unrecognized_iff_witness:
  "calc example_mlab (velprof_axForm [Some 0, Some 2]) example_other_obj (CStr ''u'')
     = Inl (Unrecognized (Cls_other ''dict'') Velprof_axForm)
   \<and> calc example_mlab (velprof_axForm [Some 0, Some 2]) example_data_obj (CStr ''u'')
     \<noteq> Inl (Unrecognized Cls_tsdata Velprof_axForm)
   \<and> calc example_mlab (velprof_axForm [Some 0, Some 2]) example_data_obj (CStr ''x'')
     = Inl (KeyError (CStr ''x''))
   \<and> component_index (CStr ''u'') = Inr 0"
proof -
  have m: "mro example_other_obj = [Cls_other ''dict'', Cls_object]"
    "mro example_data_obj = [Cls_tsdata, Cls_object]"
    "obj_class example_other_obj = Cls_other ''dict''"
    by (simp_all add: mro_def example_other_obj_def example_data_obj_def)
  have k: "fclass (velprof_axForm [Some 0, Some 2]) = Velprof_axForm"
    by (simp add: velprof_axForm_def)
  show ?thesis
    using calc_unrecognized_iff [OF refl, of "CStr ''u''" 0 example_mlab
        "velprof_axForm [Some 0, Some 2]" example_other_obj "''x''"]
      calc_unrecognized_iff [OF refl, of "CStr ''u''" 0 example_mlab
        "velprof_axForm [Some 0, Some 2]" example_data_obj "''x''"]
    by (simp add: m k)
qed

subsection \<open>The dispatch to the lookup methods\<close>

lemma calc_loop_only:
  assumes "(cls, meth) \<in> set items" and "cls \<in> set (mro obj)"
    and "\<forall>(cls', meth') \<in> set items. cls' \<in> set (mro obj) \<longrightarrow> meth' = meth"
  shows "calc_loop L self obj c items
           = (case getattr_method L self meth of None \<Rightarrow> Inr (NaN, NaN) | Some m \<Rightarrow> m obj c)"
  using assms
proof (induction items)
  case Nil
  then show ?case by simp
next
  case (Cons it items)
  obtain cls' meth' where it: "it = (cls', meth')" by (cases it)
  show ?case
  proof (cases "cls' \<in> set (mro obj)")
    case True
    with Cons.prems(3) it have "meth' = meth" by auto
    with True it show ?thesis by simp
  next
    case False
    with Cons.prems it have "(cls, meth) \<in> set items" by auto
    from Cons.IH [OF this Cons.prems(2)] Cons.prems(3) False it show ?thesis by simp
  qed
qed

text \<open>
  Claim C5 says that for every format and every object derived from \<^verbatim>\<open>tsdata\<close> the
  result of \<open>calc\<close> is the pair returned by the format's \<^verbatim>\<open>_calc_tsdata\<close>. A
  \<open>prof_axForm\<close> has no such method, and \<open>calc\<close> returns the pair of \<^verbatim>\<open>np.NaN\<close>.
\<close>

theorem calc_without_method_counterexample:
  "calc example_mlab prof_axForm example_data_obj (CInt 0) = Inr (NaN, NaN)
   \<and> calc_tsdata_of example_mlab prof_axForm = None
   \<and> Cls_tsdata \<in> set (mro example_data_obj)"
  by (simp add: calc_def calc_items_def component_index_def ebind_def method_map_def mro_def
      getattr_method_def calc_tsdata_of_def prof_axForm_def base_axForm_def
      example_data_obj_def)

text \<open>
  Claim C5, amended. The strings \<^verbatim>\<open>'u'\<close>, \<^verbatim>\<open>'v'\<close>, \<^verbatim>\<open>'w'\<close> are mapped to 0, 1, 2
  and an integer component is passed on as it is. For such a component, and whatever
  the order in which the items of \<open>method_map\<close> are visited: for an object derived from
  \<^verbatim>\<open>tsdata\<close> and not from \<^verbatim>\<open>tsrun\<close>, \<open>calc\<close> returns what the format's
  \<^verbatim>\<open>_calc_tsdata\<close> returns for the object and the index when the format has that
  method, and the pair of \<^verbatim>\<open>np.NaN\<close> when it has not; likewise for \<^verbatim>\<open>tsrun\<close> and
  \<^verbatim>\<open>_calc_tsrun\<close>. Every format class but \<open>base_axForm\<close> and \<open>prof_axForm\<close> has both
  methods.
\<close>

theorem calc_dispatch:
  assumes "component_index cmp = Inr c" and "set items = set method_map"
  shows "(Cls_tsdata \<in> set (mro obj) \<and> Cls_tsrun \<notin> set (mro obj) \<longrightarrow>
            calc_items L items self obj cmp
              = (case calc_tsdata_of L self of
                   None \<Rightarrow> Inr (NaN, NaN)
                 | Some m \<Rightarrow> m (as_tsdata obj) c))
       \<and> (Cls_tsrun \<in> set (mro obj) \<and> Cls_tsdata \<notin> set (mro obj) \<longrightarrow>
            calc_items L items self obj cmp
              = (case calc_tsrun_of self of
                   None \<Rightarrow> Inr (NaN, NaN)
                 | Some m \<Rightarrow> m (as_tsrun obj) c))
       \<and> (fclass self \<noteq> Base_axForm \<and> fclass self \<noteq> Prof_axForm \<longrightarrow>
            calc_tsdata_of L self \<noteq> None \<and> calc_tsrun_of self \<noteq> None)
       \<and> calc L self obj cmp = calc_items L method_map self obj cmp
       \<and> component_index (CStr ''u'') = Inr 0
       \<and> component_index (CStr ''v'') = Inr 1
       \<and> component_index (CStr ''w'') = Inr 2
       \<and> component_index (CInt i) = Inr i"
proof -
  have e: "calc_items L items self obj cmp = calc_loop L self obj c items"
    using assms(1) by (simp add: calc_items_def ebind_def)
  have d: "calc_loop L self obj c items
             = (case calc_tsdata_of L self of
                  None \<Rightarrow> Inr (NaN, NaN)
                | Some m \<Rightarrow> m (as_tsdata obj) c)"
    if t: "Cls_tsdata \<in> set (mro obj)" "Cls_tsrun \<notin> set (mro obj)"
  proof -
    have "calc_loop L self obj c items
            = (case getattr_method L self ''_calc_tsdata'' of
                 None \<Rightarrow> Inr (NaN, NaN) | Some m \<Rightarrow> m obj c)"
      using t assms(2) by (intro calc_loop_only [of Cls_tsdata]) (auto simp add: method_map_def)
    then show ?thesis
      by (simp add: getattr_method_def split: option.splits)
  qed
  have r: "calc_loop L self obj c items
             = (case calc_tsrun_of self of
                  None \<Rightarrow> Inr (NaN, NaN)
                | Some m \<Rightarrow> m (as_tsrun obj) c)"
    if t: "Cls_tsrun \<in> set (mro obj)" "Cls_tsdata \<notin> set (mro obj)"
  proof -
    have "calc_loop L self obj c items
            = (case getattr_method L self ''_calc_tsrun'' of
                 None \<Rightarrow> Inr (NaN, NaN) | Some m \<Rightarrow> m obj c)"
      using t assms(2) by (intro calc_loop_only [of Cls_tsrun]) (auto simp add: method_map_def)
    then show ?thesis
      by (simp add: getattr_method_def split: option.splits)
  qed
  have h: "calc_tsdata_of L self \<noteq> None \<and> calc_tsrun_of self \<noteq> None"
    if "fclass self \<noteq> Base_axForm" "fclass self \<noteq> Prof_axForm"
    using that by (cases "fclass self") (simp_all add: calc_tsdata_of_def calc_tsrun_of_def)
  have i: "component_index (CStr ''u'') = Inr 0" "component_index (CStr ''v'') = Inr 1"
    "component_index (CStr ''w'') = Inr 2" "component_index (CInt i) = Inr i"
    by (simp_all add: component_index_def indx_def)
  show ?thesis
    using d r h i by (simp add: e calc_def)
qed

theorem calc_dispatch_witness:
  "calc example_mlab (velprof_axForm [Some 0, Some 2]) example_data_obj (CStr ''u'')
     = Inr (Arr [1, 3], Arr [10, 20])
   \<and> calc example_mlab (velprof_axForm [Some 0, Some 2]) example_run_obj (CStr ''w'')
     = Inr (Arr [9, 11], Arr [10, 20])"
proof -
  have u: "component_index (CStr ''u'') = Inr 0" and w: "component_index (CStr ''w'') = Inr 2"
    by (simp_all add: component_index_def indx_def)
  have m: "mro example_data_obj = [Cls_tsdata, Cls_object]"
    "mro example_run_obj = [Cls_tsrun, Cls_object]"
    "as_tsdata example_data_obj = example_tsdata"
    "as_tsrun example_run_obj = example_tsrun"
    by (simp_all add: mro_def example_data_obj_def example_run_obj_def)
  have k: "fclass (velprof_axForm [Some 0, Some 2]) = Velprof_axForm"
    by (simp add: velprof_axForm_def)
  have a: "velprof_calc_tsdata self example_tsdata 0 = Inr (Arr [1, 3], Arr [10, 20])" for self
    by (simp add: velprof_calc_tsdata_def column3_def norm_index_def ebind_def arrays_def
        example_tsdata_def example_arr3_def upt_rec)
  have b: "velprof_calc_tsrun self example_tsrun 2 = Inr (Arr [9, 11], Arr [10, 20])" for self
    by (simp add: velprof_calc_tsrun_def column3_def norm_index_def ebind_def arrays_def
        example_tsrun_def example_arr3_def upt_rec)
  show ?thesis
    using calc_dispatch [OF u refl, of example_data_obj example_mlab
        "velprof_axForm [Some 0, Some 2]"]
      calc_dispatch [OF w refl, of example_run_obj example_mlab
        "velprof_axForm [Some 0, Some 2]"]
    by (simp add: m k a b calc_tsdata_of_def calc_tsrun_of_def)
qed

subsection \<open>Finishing a column of axes\<close>

lemma annote_axes_kind:
  assumes "annote_axes labs axes = Inr anns" and "e \<in> set anns"
  shows "\<exists>a l. e = AnnoteCorner a l"
  using assms
proof (induction axes arbitrary: anns)
  case Nil
  then show ?case by simp
next
  case (Cons a axes)
  from Cons.prems(1) obtain l anns' where
    r: "annote_axes labs axes = Inr anns'" and
    c: "anns = AnnoteCorner (ax_id a) l # anns'"
    by (auto simp add: ebind_Inr_iff split: component.splits option.splits)
  from Cons.prems(2) c Cons.IH [OF r] show ?case by auto
qed

lemma annote_axes_nonempty:
  assumes "annote_axes labs axes = Inr anns" and "axes \<noteq> []"
  shows "anns \<noteq> []"
  using assms
  by (cases axes) (auto simp add: ebind_Inr_iff split: component.splits option.splits)

lemma annote_axes_succeeds_iff:
  "(\<exists>anns. annote_axes labs axes = Inr anns)
     \<longleftrightarrow> (\<forall>a \<in> set axes. \<exists>s l. ax_comp a = CStr s \<and> map_of labs s = Some l)"
proof (induction axes)
  case Nil
  show ?case by simp
next
  case (Cons a axes)
  show ?case
  proof (cases "ax_comp a")
    case (CInt i)
    then show ?thesis by simp
  next
    case (CStr s)
    show ?thesis
    proof (cases "map_of labs s")
      case None
      with CStr show ?thesis by simp
    next
      case (Some l)
      with CStr Cons.IH show ?thesis by (simp add: ebind_Inr_iff)
    qed
  qed
qed

lemma labels_step_kind:
  assumes "labels_step self axes = Inr anns" and "e \<in> set anns"
  shows "\<exists>a l. e = AnnoteCorner a l"
  using assms annote_axes_kind
  by (cases "labels self") (auto simp add: labels_step_def)

lemma labels_step_nonempty:
  assumes "labels_step self axes = Inr anns" and "axes \<noteq> []"
  shows "anns \<noteq> [] \<longleftrightarrow> labels self \<noteq> None"
  using assms annote_axes_nonempty
  by (cases "labels self") (auto simp add: labels_step_def)

lemma hide_step_kind: "e \<in> set (hide_step self axes) \<Longrightarrow> \<exists>g w a. e = Hide g w a"
  by (cases "hide_ylabels self") (auto simp add: hide_step_def)

lemma ylabel_step_kind: "e \<in> set (ylabel_step self axes) \<Longrightarrow> \<exists>a l. e = Set_ylabel a l"
  by (cases "hide_ylabels self"; cases "ylabel self") (auto simp add: ylabel_step_def)

lemma ylabel_step_nonempty:
  "axes \<noteq> [] \<Longrightarrow>
     ylabel_step self axes \<noteq> [] \<longleftrightarrow> ylabel self \<noteq> None \<and> \<not> hide_ylabels self"
  by (cases "hide_ylabels self"; cases "ylabel self") (auto simp add: ylabel_step_def)

lemma xlabel_step_kind: "e \<in> set (xlabel_step self axes) \<Longrightarrow> \<exists>a l. e = Set_xlabel a l"
  by (auto simp add: xlabel_step_def)

lemma title_step_kind: "e \<in> set (title_step self axes) \<Longrightarrow> \<exists>a t. e = Set_title a t"
  by (cases "title self") (auto simp add: title_step_def)

lemma title_step_nonempty: "title_step self axes \<noteq> [] \<longleftrightarrow> title self \<noteq> None"
  by (cases "title self") (auto simp add: title_step_def)

lemma grid_step_kind: "e \<in> set (grid_step self axes) \<Longrightarrow> \<exists>a v. e = Vln a v"
  by (cases "grid_x self") (auto simp add: grid_step_def)

lemma grid_step_nonempty:
  "axes \<noteq> [] \<Longrightarrow>
     grid_step self axes \<noteq> [] \<longleftrightarrow> (\<exists>vals. grid_x self = Some vals \<and> vals \<noteq> [])"
  by (cases "grid_x self"; cases axes) (auto simp add: grid_step_def)

lemma nonempty_member: "xs \<noteq> [] \<longleftrightarrow> (\<exists>x. x \<in> set xs)"
  by (cases xs) auto

lemma filter_all: "(\<And>x. x \<in> set xs \<Longrightarrow> P x) \<Longrightarrow> filter P xs = xs"
  by (induction xs) auto

lemma filter_none: "(\<And>x. x \<in> set xs \<Longrightarrow> \<not> P x) \<Longrightarrow> filter P xs = []"
  by (induction xs) auto

lemma finalize_Inr:
  assumes "axes \<noteq> []"
  shows "finalize self axes = Inr evs \<longleftrightarrow>
           (\<exists>anns. labels_step self axes = Inr anns
              \<and> evs = hide_step self axes @ ylabel_step self axes @ xlabel_step self axes
                    @ title_step self axes @ grid_step self axes @ anns)"
  using assms by (auto simp add: finalize_def ebind_Inr_iff)

text \<open>
  Claim C6 says that each cosmetic step of \<open>finalize\<close> is performed exactly when its
  attribute is present. A spectral format whose \<open>hide_ylabels\<close> is set has the attribute
  \<^verbatim>\<open>_ylabel\<close>, and \<open>finalize\<close> sets no y label: it hides the y tick labels instead.
\<close>

theorem finalize_hidden_ylabel_counterexample:
  "finalize ((spec_axForm 600 None)\<lparr>hide_ylabels := True\<rparr>) (example_axes 1)
     = Inr [Hide [(0, 1), (1, 1)] ''xticklabels'' (Some (1, 1)),
            Hide [(0, 1), (1, 1)] ''yticklabels'' None,
            Set_xlabel (1, 1) (''$f'' @ bslash # '','' @ bslash # ''mathrm{[Hz]}$''),
            Set_title (0, 1) ''spectrum'']
   \<and> ylabel ((spec_axForm 600 None)\<lparr>hide_ylabels := True\<rparr>)
     = Some (''$'' @ bslash # ''mathrm{[m^2s^{-2}/Hz]}$'')"
  by (simp add: finalize_def labels_step_def hide_step_def ylabel_step_def xlabel_step_def
      title_step_def grid_step_def get_xlabel_def ebind_def spec_axForm_def base_axForm_def
      example_axes_def)

text \<open>
  Claim C6, amended. On a group of axes that is not empty, \<open>finalize\<close> fails only when
  \<^verbatim>\<open>_labels\<close> is present and lacks the component of one of the axes; no absent
  attribute makes it fail. When it returns: the x label is always set (\<^verbatim>\<open>_xlabel\<close> is
  never absent, the base class defines it); the title and the corner annotations are
  set exactly when \<^verbatim>\<open>_title\<close> and \<^verbatim>\<open>_labels\<close> are present; grid lines are drawn
  exactly when \<^verbatim>\<open>_grid_x\<close> is present and not empty; the y labels are set exactly
  when \<^verbatim>\<open>_ylabel\<close> is present and \<open>hide_ylabels\<close> is false. Taking an attribute away
  removes the calls of its step and leaves every other call as it was.
\<close>

theorem finalize_optional_attributes:
  assumes "axes \<noteq> []"
  shows "((\<exists>evs. finalize self axes = Inr evs)
            \<longleftrightarrow> (\<forall>labs. labels self = Some labs \<longrightarrow>
                  (\<forall>a \<in> set axes. \<exists>s l. ax_comp a = CStr s \<and> map_of labs s = Some l)))
       \<and> (finalize self axes = Inr evs \<longrightarrow>
            ((\<exists>a l. Set_ylabel a l \<in> set evs) \<longleftrightarrow> ylabel self \<noteq> None \<and> \<not> hide_ylabels self)
          \<and> Set_xlabel (ax_id (last axes)) (get_xlabel self) \<in> set evs
          \<and> ((\<exists>a t. Set_title a t \<in> set evs) \<longleftrightarrow> title self \<noteq> None)
          \<and> ((\<exists>a v. Vln a v \<in> set evs) \<longleftrightarrow> (\<exists>vals. grid_x self = Some vals \<and> vals \<noteq> []))
          \<and> ((\<exists>a l. AnnoteCorner a l \<in> set evs) \<longleftrightarrow> labels self \<noteq> None)
          \<and> finalize (self\<lparr>ylabel := None\<rparr>) axes
              = Inr (filter (\<lambda>e. \<forall>a l. e \<noteq> Set_ylabel a l) evs)
          \<and> finalize (self\<lparr>title := None\<rparr>) axes
              = Inr (filter (\<lambda>e. \<forall>a t. e \<noteq> Set_title a t) evs)
          \<and> finalize (self\<lparr>grid_x := None\<rparr>) axes
              = Inr (filter (\<lambda>e. \<forall>a v. e \<noteq> Vln a v) evs)
          \<and> finalize (self\<lparr>labels := None\<rparr>) axes
              = Inr (filter (\<lambda>e. \<forall>a l. e \<noteq> AnnoteCorner a l) evs))"
proof (intro conjI impI)
  show "(\<exists>evs. finalize self axes = Inr evs)
            \<longleftrightarrow> (\<forall>labs. labels self = Some labs \<longrightarrow>
                  (\<forall>a \<in> set axes. \<exists>s l. ax_comp a = CStr s \<and> map_of labs s = Some l))"
  proof (cases "labels self")
    case None
    with assms show ?thesis by (simp add: finalize_Inr labels_step_def)
  next
    case (Some labs)
    with assms annote_axes_succeeds_iff [of labs axes] show ?thesis
      by (simp add: finalize_Inr labels_step_def)
  qed
next
  assume f: "finalize self axes = Inr evs"
  then obtain anns where a: "labels_step self axes = Inr anns"
    and e: "evs = hide_step self axes @ ylabel_step self axes @ xlabel_step self axes
              @ title_step self axes @ grid_step self axes @ anns"
    using assms by (auto simp add: finalize_Inr)
  note kinds = hide_step_kind [of _ self axes] ylabel_step_kind [of _ self axes]
    xlabel_step_kind [of _ self axes] title_step_kind [of _ self axes]
    grid_step_kind [of _ self axes] labels_step_kind [OF a]
  have m: "x \<in> set evs \<longleftrightarrow> x \<in> set (hide_step self axes) \<or> x \<in> set (ylabel_step self axes)
      \<or> x \<in> set (xlabel_step self axes) \<or> x \<in> set (title_step self axes)
      \<or> x \<in> set (grid_step self axes) \<or> x \<in> set anns" for x
    unfolding e by auto
  have "(\<exists>a l. Set_ylabel a l \<in> set evs) \<longleftrightarrow> ylabel_step self axes \<noteq> []"
    unfolding m nonempty_member using kinds by fastforce
  then show "(\<exists>a l. Set_ylabel a l \<in> set evs) \<longleftrightarrow> ylabel self \<noteq> None \<and> \<not> hide_ylabels self"
    using ylabel_step_nonempty [OF assms] by simp
  show "Set_xlabel (ax_id (last axes)) (get_xlabel self) \<in> set evs"
    unfolding m by (simp add: xlabel_step_def)
  have "(\<exists>a t. Set_title a t \<in> set evs) \<longleftrightarrow> title_step self axes \<noteq> []"
    unfolding m nonempty_member using kinds by fastforce
  then show "(\<exists>a t. Set_title a t \<in> set evs) \<longleftrightarrow> title self \<noteq> None"
    using title_step_nonempty by simp
  have "(\<exists>a v. Vln a v \<in> set evs) \<longleftrightarrow> grid_step self axes \<noteq> []"
    unfolding m nonempty_member using kinds by fastforce
  then show "(\<exists>a v. Vln a v \<in> set evs) \<longleftrightarrow> (\<exists>vals. grid_x self = Some vals \<and> vals \<noteq> [])"
    using grid_step_nonempty [OF assms] by simp
  have "(\<exists>a l. AnnoteCorner a l \<in> set evs) \<longleftrightarrow> anns \<noteq> []"
    unfolding m nonempty_member using kinds by fastforce
  then show "(\<exists>a l. AnnoteCorner a l \<in> set evs) \<longleftrightarrow> labels self \<noteq> None"
    using labels_step_nonempty [OF a assms] by simp
  have fh: "filter P (hide_step self axes) = hide_step self axes"
    if "\<And>g w a. P (Hide g w a)" for P
    using that by (intro filter_all) (auto dest!: hide_step_kind)
  have fx: "filter P (xlabel_step self axes) = xlabel_step self axes"
    if "\<And>a l. P (Set_xlabel a l)" for P
    using that by (intro filter_all) (auto dest!: xlabel_step_kind)
  have fy: "filter P (ylabel_step self axes) = (if K then ylabel_step self axes else [])"
    if "\<And>a l. P (Set_ylabel a l) = K" for P K
  proof (cases K)
    case True
    with that show ?thesis by simp (intro filter_all, auto dest!: ylabel_step_kind)
  next
    case False
    with that show ?thesis by simp (intro filter_none, auto dest!: ylabel_step_kind)
  qed
  have ft: "filter P (title_step self axes) = (if K then title_step self axes else [])"
    if "\<And>a l. P (Set_title a l) = K" for P K
  proof (cases K)
    case True
    with that show ?thesis by simp (intro filter_all, auto dest!: title_step_kind)
  next
    case False
    with that show ?thesis by simp (intro filter_none, auto dest!: title_step_kind)
  qed
  have fg: "filter P (grid_step self axes) = (if K then grid_step self axes else [])"
    if "\<And>a l. P (Vln a l) = K" for P K
  proof (cases K)
    case True
    with that show ?thesis by simp (intro filter_all, auto dest!: grid_step_kind)
  next
    case False
    with that show ?thesis by simp (intro filter_none, auto dest!: grid_step_kind)
  qed
  have fa: "filter P anns = (if K then anns else [])"
    if "\<And>a l. P (AnnoteCorner a l) = K" for P K
  proof (cases K)
    case True
    with that show ?thesis by simp (intro filter_all, auto dest!: labels_step_kind [OF a])
  next
    case False
    with that show ?thesis by simp (intro filter_none, auto dest!: labels_step_kind [OF a])
  qed
  have u: "labels_step (self\<lparr>ylabel := None\<rparr>) axes = labels_step self axes"
    "labels_step (self\<lparr>title := None\<rparr>) axes = labels_step self axes"
    "labels_step (self\<lparr>grid_x := None\<rparr>) axes = labels_step self axes"
    "labels_step (self\<lparr>labels := None\<rparr>) axes = Inr []"
    "hide_step (self\<lparr>ylabel := None\<rparr>) axes = hide_step self axes"
    "hide_step (self\<lparr>title := None\<rparr>) axes = hide_step self axes"
    "hide_step (self\<lparr>grid_x := None\<rparr>) axes = hide_step self axes"
    "hide_step (self\<lparr>labels := None\<rparr>) axes = hide_step self axes"
    "ylabel_step (self\<lparr>ylabel := None\<rparr>) axes = []"
    "ylabel_step (self\<lparr>title := None\<rparr>) axes = ylabel_step self axes"
    "ylabel_step (self\<lparr>grid_x := None\<rparr>) axes = ylabel_step self axes"
    "ylabel_step (self\<lparr>labels := None\<rparr>) axes = ylabel_step self axes"
    "xlabel_step (self\<lparr>ylabel := None\<rparr>) axes = xlabel_step self axes"
    "xlabel_step (self\<lparr>title := None\<rparr>) axes = xlabel_step self axes"
    "xlabel_step (self\<lparr>grid_x := None\<rparr>) axes = xlabel_step self axes"
    "xlabel_step (self\<lparr>labels := None\<rparr>) axes = xlabel_step self axes"
    "title_step (self\<lparr>ylabel := None\<rparr>) axes = title_step self axes"
    "title_step (self\<lparr>title := None\<rparr>) axes = []"
    "title_step (self\<lparr>grid_x := None\<rparr>) axes = title_step self axes"
    "title_step (self\<lparr>labels := None\<rparr>) axes = title_step self axes"
    "grid_step (self\<lparr>ylabel := None\<rparr>) axes = grid_step self axes"
    "grid_step (self\<lparr>title := None\<rparr>) axes = grid_step self axes"
    "grid_step (self\<lparr>grid_x := None\<rparr>) axes = []"
    "grid_step (self\<lparr>labels := None\<rparr>) axes = grid_step self axes"
    by (cases "hide_ylabels self",
        simp_all add: labels_step_def hide_step_def ylabel_step_def xlabel_step_def
        get_xlabel_def title_step_def grid_step_def split: option.splits)
  define Py where "Py = (\<lambda>e. \<forall>a l. e \<noteq> Set_ylabel a l)"
  have "filter Py (hide_step self axes) = hide_step self axes"
    "filter Py (xlabel_step self axes) = xlabel_step self axes"
    "filter Py (ylabel_step self axes) = []"
    "filter Py (title_step self axes) = title_step self axes"
    "filter Py (grid_step self axes) = grid_step self axes"
    "filter Py anns = anns"
    using fh [of Py] fx [of Py] fy [of Py False] ft [of Py True]
      fg [of Py True] fa [of Py True]
    by (simp_all add: Py_def)
  then have "finalize (self\<lparr>ylabel := None\<rparr>) axes = Inr (filter Py evs)"
    using assms a unfolding e by (simp add: finalize_def ebind_def u)
  then show "finalize (self\<lparr>ylabel := None\<rparr>) axes
              = Inr (filter (\<lambda>e. \<forall>a l. e \<noteq> Set_ylabel a l) evs)"
    unfolding Py_def .
  define Pt where "Pt = (\<lambda>e. \<forall>a t. e \<noteq> Set_title a t)"
  have "filter Pt (hide_step self axes) = hide_step self axes"
    "filter Pt (xlabel_step self axes) = xlabel_step self axes"
    "filter Pt (ylabel_step self axes) = ylabel_step self axes"
    "filter Pt (title_step self axes) = []"
    "filter Pt (grid_step self axes) = grid_step self axes"
    "filter Pt anns = anns"
    using fh [of Pt] fx [of Pt] fy [of Pt True] ft [of Pt False]
      fg [of Pt True] fa [of Pt True]
    by (simp_all add: Pt_def)
  then have "finalize (self\<lparr>title := None\<rparr>) axes = Inr (filter Pt evs)"
    using assms a unfolding e by (simp add: finalize_def ebind_def u)
  then show "finalize (self\<lparr>title := None\<rparr>) axes
              = Inr (filter (\<lambda>e. \<forall>a t. e \<noteq> Set_title a t) evs)"
    unfolding Pt_def .
  define Pg where "Pg = (\<lambda>e. \<forall>a v. e \<noteq> Vln a v)"
  have "filter Pg (hide_step self axes) = hide_step self axes"
    "filter Pg (xlabel_step self axes) = xlabel_step self axes"
    "filter Pg (ylabel_step self axes) = ylabel_step self axes"
    "filter Pg (title_step self axes) = title_step self axes"
    "filter Pg (grid_step self axes) = []"
    "filter Pg anns = anns"
    using fh [of Pg] fx [of Pg] fy [of Pg True] ft [of Pg True]
      fg [of Pg False] fa [of Pg True]
    by (simp_all add: Pg_def)
  then have "finalize (self\<lparr>grid_x := None\<rparr>) axes = Inr (filter Pg evs)"
    using assms a unfolding e by (simp add: finalize_def ebind_def u)
  then show "finalize (self\<lparr>grid_x := None\<rparr>) axes
              = Inr (filter (\<lambda>e. \<forall>a v. e \<noteq> Vln a v) evs)"
    unfolding Pg_def .
  define Pa where "Pa = (\<lambda>e. \<forall>a l. e \<noteq> AnnoteCorner a l)"
  have "filter Pa (hide_step self axes) = hide_step self axes"
    "filter Pa (xlabel_step self axes) = xlabel_step self axes"
    "filter Pa (ylabel_step self axes) = ylabel_step self axes"
    "filter Pa (title_step self axes) = title_step self axes"
    "filter Pa (grid_step self axes) = grid_step self axes"
    "filter Pa anns = []"
    using fh [of Pa] fx [of Pa] fy [of Pa True] ft [of Pa True]
      fg [of Pa True] fa [of Pa False]
    by (simp_all add: Pa_def)
  then have "finalize (self\<lparr>labels := None\<rparr>) axes = Inr (filter Pa evs)"
    using assms a unfolding e by (simp add: finalize_def ebind_def u)
  then show "finalize (self\<lparr>labels := None\<rparr>) axes
              = Inr (filter (\<lambda>e. \<forall>a l. e \<noteq> AnnoteCorner a l) evs)"
    unfolding Pa_def .
qed

theorem finalize_optional_attributes_witness:
  "example_axes 0 \<noteq> []
   \<and> finalize (velprof_axForm [Some 0, Some 2]) (example_axes 0)
     = Inr [Hide [(0, 0), (1, 0)] ''xticklabels'' (Some (1, 0)),
            Set_ylabel (0, 0) (''$z'' @ bslash # '','' @ bslash # ''mathrm{[m]}$''),
            Set_ylabel (1, 0) (''$z'' @ bslash # '','' @ bslash # ''mathrm{[m]}$''),
            Set_xlabel (1, 0) (''$'' @ bslash # ''mathrm{[m/s]}$''),
            Set_title (0, 0) ''Mean Velocity'']
   \<and> finalize ((velprof_axForm [Some 0, Some 2])\<lparr>title := None\<rparr>) (example_axes 0)
     = Inr [Hide [(0, 0), (1, 0)] ''xticklabels'' (Some (1, 0)),
            Set_ylabel (0, 0) (''$z'' @ bslash # '','' @ bslash # ''mathrm{[m]}$''),
            Set_ylabel (1, 0) (''$z'' @ bslash # '','' @ bslash # ''mathrm{[m]}$''),
            Set_xlabel (1, 0) (''$'' @ bslash # ''mathrm{[m/s]}$'')]"
proof -
  have n: "example_axes 0 \<noteq> []" by (simp add: example_axes_def)
  have f: "finalize (velprof_axForm [Some 0, Some 2]) (example_axes 0)
     = Inr [Hide [(0, 0), (1, 0)] ''xticklabels'' (Some (1, 0)),
            Set_ylabel (0, 0) (''$z'' @ bslash # '','' @ bslash # ''mathrm{[m]}$''),
            Set_ylabel (1, 0) (''$z'' @ bslash # '','' @ bslash # ''mathrm{[m]}$''),
            Set_xlabel (1, 0) (''$'' @ bslash # ''mathrm{[m/s]}$''),
            Set_title (0, 0) ''Mean Velocity'']"
    by (simp add: finalize_def labels_step_def hide_step_def ylabel_step_def xlabel_step_def
      title_step_def grid_step_def get_xlabel_def ebind_def velprof_axForm_def prof_axForm_def
      base_axForm_def example_axes_def)
  from finalize_optional_attributes [OF n, of "velprof_axForm [Some 0, Some 2]"
      "[Hide [(0, 0), (1, 0)] ''xticklabels'' (Some (1, 0)),
            Set_ylabel (0, 0) (''$z'' @ bslash # '','' @ bslash # ''mathrm{[m]}$''),
            Set_ylabel (1, 0) (''$z'' @ bslash # '','' @ bslash # ''mathrm{[m]}$''),
            Set_xlabel (1, 0) (''$'' @ bslash # ''mathrm{[m/s]}$''),
            Set_title (0, 0) ''Mean Velocity'']"] f n
  show ?thesis by simp
qed

subsection \<open>What a figure changes in its formats\<close>

lemma init_step_store:
  assumes "init_step tightgap idx a (h, row, hsp, last_yax) = Inr (h', row', hsp', last')"
  shows "yax (h a) = last' \<and> last' \<noteq> None
       \<and> h' = (if yax (h a) = last_yax then h(a := (h a)\<lparr>hide_ylabels := True\<rparr>) else h)"
proof (cases "yax (h a)")
  case None
  with assms show ?thesis by (simp add: init_step_def)
next
  case (Some y)
  define m where "m = (if Some y = last_yax
                then (if idx < length (gap hsp)
                      then Inr (h(a := (h a)\<lparr>hide_ylabels := True\<rparr>),
                                row[idx := row ! (if idx = 0 then length row - 1 else idx - 1)],
                                hsp\<lparr>gap := (gap hsp)[idx := tightgap]\<rparr>)
                      else Inl IndexError)
                else Inr (h, row, hsp))"
  define k where "k = (\<lambda>t :: store \<times> nat list \<times> spacer. case t of (h', row', hsp') \<Rightarrow>
             ebind
               (case hrel (h' a) of
                  None \<Rightarrow> Inr hsp'
                | Some r \<Rightarrow>
                    if idx < length (axsize hsp')
                    then Inr (hsp'\<lparr>axsize := (axsize hsp')[idx := axsize hsp' ! idx * r]\<rparr>)
                    else Inl IndexError)
               (\<lambda>hsp''. Inr (h', row', hsp'', Some y)))"
  from assms Some have "ebind m k = Inr (h', row', hsp', last')"
    by (simp add: init_step_def m_def k_def)
  then obtain t where t: "m = Inr t" and kt: "k t = Inr (h', row', hsp', last')"
    unfolding ebind_Inr_iff by blast
  obtain h1 row1 hsp1 where t3: "t = (h1, row1, hsp1)" by (cases t)
  from kt have l: "h' = h1" "last' = Some y"
    unfolding k_def t3 by (auto simp add: ebind_Inr_iff)
  from t have "h1 = (if Some y = last_yax then h(a := (h a)\<lparr>hide_ylabels := True\<rparr>) else h)"
    unfolding m_def t3
    by (cases "Some y = last_yax"; cases "idx < length (gap hsp)") simp_all
  with l Some show ?thesis by simp
qed

lemma init_loop_frame:
  assumes "init_loop tightgap as idx (h, row, hsp, last_yax) = Inr (h', row', hsp', last')"
  shows "h' a = (h a)\<lparr>hide_ylabels := hide_ylabels (h' a)\<rparr>"
  using assms
proof (induction as arbitrary: idx h row hsp last_yax)
  case Nil
  then show ?case by simp
next
  case (Cons b bs)
  from Cons.prems obtain h1 row1 hsp1 last1 where
    s: "init_step tightgap idx b (h, row, hsp, last_yax) = Inr (h1, row1, hsp1, last1)" and
    r: "init_loop tightgap bs (Suc idx) (h1, row1, hsp1, last1) = Inr (h', row', hsp', last')"
    by (auto simp add: ebind_Inr_iff)
  from init_step_store [OF s] have h1: "h1 a = (h a)\<lparr>hide_ylabels := hide_ylabels (h1 a)\<rparr>"
    by (cases "yax (h b) = last_yax") simp_all
  from Cons.IH [OF r] have "h' a = (h1 a)\<lparr>hide_ylabels := hide_ylabels (h' a)\<rparr>" .
  then have "h' a = ((h a)\<lparr>hide_ylabels := hide_ylabels (h1 a)\<rparr>)\<lparr>hide_ylabels := hide_ylabels (h' a)\<rparr>"
    using h1 by simp
  then show ?case by simp
qed

lemma init_loop_yax:
  assumes "init_loop tightgap as idx (h, row, hsp, last_yax) = Inr (h', row', hsp', last')"
  shows "yax (h' a) = yax (h a)"
proof -
  have "yax (h' a) = yax ((h a)\<lparr>hide_ylabels := hide_ylabels (h' a)\<rparr>)"
    using init_loop_frame [OF assms, of a] by simp
  then show ?thesis by simp
qed


lemma ex_less_Suc_split: "(\<exists>i<Suc n. P i) \<longleftrightarrow> P 0 \<or> (\<exists>j<n. P (Suc j))"
  by (metis less_Suc_eq_0_disj)

lemma init_loop_hide:
  assumes "init_loop tightgap as idx (h, row, hsp, last_yax) = Inr (h', row', hsp', last')"
  shows "hide_ylabels (h' a) \<longleftrightarrow>
           hide_ylabels (h a)
           \<or> (\<exists>i<length as. as ! i = a
                 \<and> yax (h (as ! i)) = (if i = 0 then last_yax else yax (h (as ! (i - 1)))))"
  using assms
proof (induction as arbitrary: idx h row hsp last_yax)
  case Nil
  then show ?case by simp
next
  case (Cons b bs)
  from Cons.prems obtain h1 row1 hsp1 last1 where
    s: "init_step tightgap idx b (h, row, hsp, last_yax) = Inr (h1, row1, hsp1, last1)" and
    r: "init_loop tightgap bs (Suc idx) (h1, row1, hsp1, last1) = Inr (h', row', hsp', last')"
    by (auto simp add: ebind_Inr_iff)
  from init_step_store [OF s] have l: "yax (h b) = last1"
    and h1: "h1 = (if yax (h b) = last_yax then h(b := (h b)\<lparr>hide_ylabels := True\<rparr>) else h)"
    by simp_all
  have y: "yax (h1 x) = yax (h x)" for x
    unfolding h1 by simp
  have d: "hide_ylabels (h1 a) \<longleftrightarrow> hide_ylabels (h a) \<or> (b = a \<and> yax (h b) = last_yax)"
    unfolding h1 by auto
  have "hide_ylabels (h' a) \<longleftrightarrow>
           hide_ylabels (h1 a)
           \<or> (\<exists>j<length bs. bs ! j = a
                 \<and> yax (h1 (bs ! j)) = (if j = 0 then last1 else yax (h1 (bs ! (j - 1)))))"
    by (rule Cons.IH [OF r])
  also have "\<dots> \<longleftrightarrow> hide_ylabels (h a) \<or> (b = a \<and> yax (h b) = last_yax)
           \<or> (\<exists>j<length bs. bs ! j = a
                 \<and> yax (h (bs ! j)) = (if j = 0 then yax (h b) else yax (h (bs ! (j - 1)))))"
    unfolding y d l by blast
  also have "\<dots> \<longleftrightarrow> hide_ylabels (h a)
           \<or> (\<exists>i<length (b # bs). (b # bs) ! i = a
                 \<and> yax (h ((b # bs) ! i))
                     = (if i = 0 then last_yax else yax (h ((b # bs) ! (i - 1)))))"
    by (simp add: ex_less_Suc_split nth_Cons')
  finally show ?case .
qed

lemma init_loop_first_yax:
  assumes "init_loop tightgap (b # bs) idx (h, row, hsp, last_yax) = Inr st"
  shows "yax (h b) \<noteq> None"
proof -
  from assms obtain st1 where "init_step tightgap idx b (h, row, hsp, last_yax) = Inr st1"
    by (auto simp add: ebind_Inr_iff)
  then show ?thesis
    using init_step_store [of tightgap idx b h row hsp last_yax]
    by (cases st1) auto
qed

lemma example_store_attributes:
  "yax (example_store a) = Some ''z''" "hrel (example_store a) = Some (6 / 10)"
  "hide_ylabels (example_store a) = False"
  by (simp_all add: example_store_def tkeprof_axForm_def stressprof_axForm_def
      prof_axForm_def base_axForm_def)

lemma example_init_loop:
  "init_loop (1 / 5) [0, 1] 0 (example_store, [1, 2], example_spacer, None)
     = Inr (example_store(1 := (example_store 1)\<lparr>hide_ylabels := True\<rparr>), [1, 1],
            \<lparr>gap = [1, 1 / 5], axsize = [2 * (6 / 10), 2 * (6 / 10)]\<rparr>, Some ''z'')"
  by (simp add: init_step_def ebind_def example_store_attributes example_spacer_def)

lemma example_row: "map (\<lambda>i. (i + 1) mod 256) [0..<length [0, 1::nat]] = [1, 2]"
  by (simp add: upt_rec)

lemma example_init:
  "\<exists>fg. fig_axForms_init example_store [0, 1] [CStr ''u'', CStr ''v'', CStr ''w'']
        example_spacer (1 / 5)
     = Inr (example_store(1 := (example_store 1)\<lparr>hide_ylabels := True\<rparr>), fg)"
  unfolding fig_axForms_init_def example_row Let_def example_init_loop
  by (simp add: ebind_def)

text \<open>
  Claim C4 says that building a \<^verbatim>\<open>fig_axForms\<close> figure leaves every field of every
  format as it was, index attributes aside. Built from a \<open>tkeprof_axForm\<close> and a
  \<open>stressprof_axForm\<close>, which share the y-axis \<^verbatim>\<open>'z'\<close>, the figure sets
  \<open>hide_ylabels\<close> of the second format, which was false.
\<close>

theorem fig_axForms_init_sets_hide_ylabels_counterexample:
  "hide_ylabels_after 1
     (fig_axForms_init example_store [0, 1] [CStr ''u'', CStr ''v'', CStr ''w'']
        example_spacer (1 / 5)) = Inr True
   \<and> hide_ylabels (example_store 1) = False"
proof -
  from example_init obtain fg where
    "fig_axForms_init example_store [0, 1] [CStr ''u'', CStr ''v'', CStr ''w'']
        example_spacer (1 / 5)
     = Inr (example_store(1 := (example_store 1)\<lparr>hide_ylabels := True\<rparr>), fg)"
    by blast
  then show ?thesis
    by (simp add: hide_ylabels_after_def example_store_attributes)
qed

text \<open>
  Claim C4, amended. Building a \<^verbatim>\<open>fig_axForms\<close> figure changes no field of any
  format except \<open>hide_ylabels\<close>, which it sets on each format that stands in the list
  right after a format with the same \<^verbatim>\<open>yax\<close> and leaves as it was on every other;
  plotting and finalizing the figure change no format at all. (The lookup methods,
  \<open>plot\<close> and \<open>finalize\<close> of a format assign to no attribute of the format: in the
  model they return no store.)
\<close>

theorem formats_change_only_hide_ylabels:
  "(fig_axForms_init h axfs cmps hspacer0 tightgap = Inr (h', fg) \<longrightarrow>
      (\<forall>a. h' a = (h a)\<lparr>hide_ylabels := hide_ylabels (h' a)\<rparr>)
    \<and> (\<forall>a. hide_ylabels (h' a) \<longleftrightarrow>
            hide_ylabels (h a)
            \<or> (\<exists>i. 0 < i \<and> i < length axfs \<and> axfs ! i = a
                  \<and> yax (h (axfs ! i)) = yax (h (axfs ! (i - 1))))))
   \<and> (fig_axForms_plot L h fg obj = Inr (h'', evs) \<longrightarrow> h'' = h)
   \<and> (fig_axForms_finalize h fg = Inr (h'', evs) \<longrightarrow> h'' = h)"
proof (intro conjI impI allI)
  assume i: "fig_axForms_init h axfs cmps hspacer0 tightgap = Inr (h', fg)"
  define row where "row = map (\<lambda>i. (i + 1) mod 256) [0..<length axfs]"
  from i have ne: "axfs \<noteq> []"
    by (auto simp add: fig_axForms_init_def split: if_splits)
  with i obtain st where l: "init_loop tightgap axfs 0 (h, row, hspacer0, None) = Inr st"
    and st: "fst st = h'"
    by (auto simp add: fig_axForms_init_def Let_def ebind_Inr_iff row_def)
  obtain row' hsp' last' where l': "init_loop tightgap axfs 0 (h, row, hspacer0, None)
      = Inr (h', row', hsp', last')"
    using l st by (cases st) auto
  fix a
  show "h' a = (h a)\<lparr>hide_ylabels := hide_ylabels (h' a)\<rparr>"
    by (rule init_loop_frame [OF l'])
  obtain b bs where c: "axfs = b # bs" using ne by (cases axfs) auto
  have f: "yax (h (axfs ! 0)) \<noteq> None"
    using init_loop_first_yax [of tightgap b bs 0 h row hspacer0 None] l' c by simp
  have p: "hide_ylabels (h' a) \<longleftrightarrow>
           hide_ylabels (h a)
           \<or> (\<exists>i<length axfs. axfs ! i = a
                 \<and> yax (h (axfs ! i)) = (if i = 0 then None else yax (h (axfs ! (i - 1)))))"
    by (rule init_loop_hide [OF l'])
  have q: "(\<exists>i<length axfs. axfs ! i = a
                 \<and> yax (h (axfs ! i)) = (if i = 0 then None else yax (h (axfs ! (i - 1)))))
       \<longleftrightarrow> (\<exists>i. 0 < i \<and> i < length axfs \<and> axfs ! i = a
                  \<and> yax (h (axfs ! i)) = yax (h (axfs ! (i - 1))))"
  proof
    assume "\<exists>i<length axfs. axfs ! i = a
                 \<and> yax (h (axfs ! i)) = (if i = 0 then None else yax (h (axfs ! (i - 1))))"
    then obtain i where i: "i < length axfs" "axfs ! i = a"
      "yax (h (axfs ! i)) = (if i = 0 then None else yax (h (axfs ! (i - 1))))"
      by blast
    have "i \<noteq> 0"
    proof
      assume "i = 0"
      with i(3) f show False by simp
    qed
    with i have "0 < i \<and> i < length axfs \<and> axfs ! i = a
                  \<and> yax (h (axfs ! i)) = yax (h (axfs ! (i - 1)))"
      by simp
    then show "\<exists>i. 0 < i \<and> i < length axfs \<and> axfs ! i = a
                  \<and> yax (h (axfs ! i)) = yax (h (axfs ! (i - 1)))"
      by (rule exI)
  next
    assume "\<exists>i. 0 < i \<and> i < length axfs \<and> axfs ! i = a
                  \<and> yax (h (axfs ! i)) = yax (h (axfs ! (i - 1)))"
    then obtain i where i: "0 < i" "i < length axfs" "axfs ! i = a"
      "yax (h (axfs ! i)) = yax (h (axfs ! (i - 1)))"
      by blast
    then have "i < length axfs \<and> axfs ! i = a
                 \<and> yax (h (axfs ! i)) = (if i = 0 then None else yax (h (axfs ! (i - 1))))"
      by simp
    then show "\<exists>i<length axfs. axfs ! i = a
                 \<and> yax (h (axfs ! i)) = (if i = 0 then None else yax (h (axfs ! (i - 1))))"
      by (rule exI)
  qed
  from p show "hide_ylabels (h' a) \<longleftrightarrow>
            hide_ylabels (h a)
            \<or> (\<exists>i. 0 < i \<and> i < length axfs \<and> axfs ! i = a
                  \<and> yax (h (axfs ! i)) = yax (h (axfs ! (i - 1))))"
    unfolding q .
next
  assume "fig_axForms_plot L h fg obj = Inr (h'', evs)"
  then show "h'' = h"
    by (auto simp add: fig_axForms_plot_def ebind_Inr_iff)
next
  assume "fig_axForms_finalize h fg = Inr (h'', evs)"
  then show "h'' = h"
    by (auto simp add: fig_axForms_finalize_def ebind_Inr_iff)
qed

lemma example_plot:
  "\<exists>r. fig_axForms_plot example_mlab example_store example_fig example_data_obj = Inr r"
  by (simp add: fig_axForms_plot_def example_fig_def example_store_def calc_def calc_items_def
      component_index_def indx_def method_map_def mro_def getattr_method_def calc_tsdata_of_def
      tkeprof_calc_tsdata_def tkeprof_axForm_def prof_axForm_def base_axForm_def
      column3_def norm_index_def arrays_def ebind_def example_data_obj_def example_tsdata_def
      example_arr3_def)

lemma example_finalize:
  "\<exists>r. fig_axForms_finalize example_store example_fig = Inr r"
  by (simp add: fig_axForms_finalize_def example_fig_def example_store_def finalize_def
      labels_step_def tkeprof_axForm_def prof_axForm_def base_axForm_def ebind_def)

theorem formats_change_only_hide_ylabels_witness:
  "(\<exists>h' fg. fig_axForms_init example_store [0, 1] [CStr ''u'', CStr ''v'', CStr ''w'']
        example_spacer (1 / 5) = Inr (h', fg)
     \<and> h' 0 = example_store 0
     \<and> h' 1 = (example_store 1)\<lparr>hide_ylabels := True\<rparr>)
   \<and> (\<exists>evs. fig_axForms_plot example_mlab example_store example_fig example_data_obj
         = Inr (example_store, evs))
   \<and> (\<exists>evs. fig_axForms_finalize example_store example_fig = Inr (example_store, evs))"
proof -
  from example_plot obtain hp evp where
    p: "fig_axForms_plot example_mlab example_store example_fig example_data_obj
          = Inr (hp, evp)"
    by force
  with formats_change_only_hide_ylabels [where h = example_store and L = example_mlab
      and fg = example_fig and obj = example_data_obj and h'' = hp and evs = evp]
  have "hp = example_store" by blast
  with p have P: "\<exists>evs. fig_axForms_plot example_mlab example_store example_fig example_data_obj
         = Inr (example_store, evs)"
    by blast
  from example_finalize obtain hf evf where
    q: "fig_axForms_finalize example_store example_fig = Inr (hf, evf)"
    by force
  with formats_change_only_hide_ylabels [where h = example_store and fg = example_fig
      and h'' = hf and evs = evf]
  have "hf = example_store" by blast
  with q have Q: "\<exists>evs. fig_axForms_finalize example_store example_fig
         = Inr (example_store, evs)"
    by blast

  from example_init obtain fg where
    i: "fig_axForms_init example_store [0, 1] [CStr ''u'', CStr ''v'', CStr ''w'']
        example_spacer (1 / 5)
     = Inr (example_store(1 := (example_store 1)\<lparr>hide_ylabels := True\<rparr>), fg)"
    by blast
  define h' where "h' = example_store(1 := (example_store 1)\<lparr>hide_ylabels := True\<rparr>)"
  note t = formats_change_only_hide_ylabels [of example_store "[0, 1]"
      "[CStr ''u'', CStr ''v'', CStr ''w'']" example_spacer "1 / 5" h' fg]
  from t i have f: "h' a = (example_store a)\<lparr>hide_ylabels := hide_ylabels (h' a)\<rparr>"
    and d: "hide_ylabels (h' a) \<longleftrightarrow> hide_ylabels (example_store a)
            \<or> (\<exists>i. 0 < i \<and> i < length [0, 1::nat] \<and> [0, 1] ! i = a
                  \<and> yax (example_store ([0, 1] ! i)) = yax (example_store ([0, 1] ! (i - 1))))"
    for a
    unfolding h'_def by blast+
  have "\<not> (\<exists>i. 0 < i \<and> i < length [0, 1::nat] \<and> [0, 1::nat] ! i = 0)"
    by (auto simp add: less_Suc_eq)
  with d [of 0] have "\<not> hide_ylabels (h' 0)"
    by (auto simp add: example_store_attributes)
  moreover have "(example_store 0)\<lparr>hide_ylabels := hide_ylabels (example_store 0)\<rparr>
      = example_store 0"
    by simp
  then have "(example_store 0)\<lparr>hide_ylabels := False\<rparr> = example_store 0"
    by (simp only: example_store_attributes)
  ultimately have 0: "h' 0 = example_store 0"
    using f [of 0] by simp
  have "\<exists>i. 0 < i \<and> i < length [0, 1::nat] \<and> [0, 1] ! i = 1
                  \<and> yax (example_store ([0, 1] ! i)) = yax (example_store ([0, 1] ! (i - 1)))"
    by (rule exI [of _ 1]) (simp add: example_store_attributes)
  with d [of 1] have "hide_ylabels (h' 1)" by blast
  with f [of 1] have 1: "h' 1 = (example_store 1)\<lparr>hide_ylabels := True\<rparr>"
    by simp
  from i 0 1 have "\<exists>h' fg. fig_axForms_init example_store [0, 1]
        [CStr ''u'', CStr ''v'', CStr ''w''] example_spacer (1 / 5) = Inr (h', fg)
     \<and> h' 0 = example_store 0
     \<and> h' 1 = (example_store 1)\<lparr>hide_ylabels := True\<rparr>"
    unfolding h'_def by blast
  with P Q show ?thesis by blast
qed

end
